theory Spec2Isabelle
  imports Main
begin

section \<open>Data model\<close>

text \<open>
  A \<open>Date\<close> is the number of milliseconds since the epoch, as \<open>Date.getTime()\<close> returns it.
  The local-time functions of the source (\<open>setHours\<close>, \<open>getDay\<close>, \<open>getMinutes\<close>,
  \<open>setDate\<close>) depend on the time zone of the process; the model fixes it to UTC, so a
  calendar day is a block of 86400000 ms. The current time, which the source reads with
  \<open>new Date()\<close>, is the explicit parameter \<open>now\<close> of every operation.
  Messages and \<open>details\<close> of errors are not modelled, only their codes.
\<close>

type_synonym Date = int

datatype AppointmentStatus = BOOKED | CONFIRMED | CANCELLED | COMPLETED | NO_SHOW

datatype PaymentStatus = REQUIRES_PAYMENT | PAID | REFUNDED | FAILED

datatype UserRole = CUSTOMER | BARBER | SHOP_OWNER | ADMIN

datatype ErrorCode =
    BOOKING_IN_PAST | OVERLAPPING_APPOINTMENT | BARBER_UNAVAILABLE | BARBER_NOT_FOUND
  | SERVICE_NOT_FOUND | CUSTOMER_NOT_FOUND | BARBER_NOT_ACTIVE | CUSTOMER_BLOCKED
  | APPOINTMENT_NOT_FOUND | APPOINTMENT_ALREADY_CANCELLED | APPOINTMENT_ALREADY_COMPLETED
  | CANNOT_CANCEL_PAST_APPOINTMENT
  | INVALID_DATE_RANGE | CONCURRENT_MODIFICATION | INTERNAL_ERROR
  | EMAIL_ALREADY_EXISTS | INVALID_CREDENTIALS | UNAUTHORIZED | FORBIDDEN
  | INVALID_APPOINTMENT_STATE | PAYMENT_ALREADY_EXISTS | STRIPE_ERROR

datatype 'a ServiceResult = Success 'a | Failure ErrorCode

record BookingConfig =
  bufferMinutes :: int
  lateCancellationHours :: int
  defaultSlotDurationMinutes :: int

definition DEFAULT_BOOKING_CONFIG :: BookingConfig where
  "DEFAULT_BOOKING_CONFIG =
     \<lparr>bufferMinutes = 10, lateCancellationHours = 6, defaultSlotDurationMinutes = 30\<rparr>"

definition REFUND_CUTOFF_HOURS :: int where
  "REFUND_CUTOFF_HOURS = 24"

definition GRACE_PERIOD_MINUTES :: int where
  "GRACE_PERIOD_MINUTES = 10"

definition STALE_THRESHOLD_MINUTES :: int where
  "STALE_THRESHOLD_MINUTES = 30"

text \<open>The rows of the tables. \<open>startTime\<close> and \<open>endTime\<close> of an availability rule are
  the \<open>TEXT NOT NULL\<close> columns holding "HH:MM"; a rule without a time range holds the empty
  string, which JavaScript takes as false.\<close>

record Availability =
  av_barberId :: string
  av_dayOfWeek :: int
  av_startTime :: string
  av_endTime :: string
  av_isException :: bool
  av_date :: "Date option"

record Barber =
  b_id :: string
  b_active :: bool
  b_shopId :: string

record Service =
  s_id :: string
  s_durationMinutes :: int
  s_priceCents :: int
  s_shopId :: string
  s_barberId :: "string option"

record User =
  u_id :: string
  u_role :: UserRole

record Appointment =
  a_id :: string
  a_barberId :: string
  a_customerId :: string
  a_serviceId :: string
  a_startTime :: Date
  a_endTime :: Date
  a_status :: AppointmentStatus
  a_cancellationReason :: "string option"
  a_createdAt :: Date

record Payment =
  p_id :: string
  p_stripePaymentIntentId :: string
  p_amountCents :: int
  p_status :: PaymentStatus
  p_customerId :: string
  p_appointmentId :: "string option"

record NoShowFlag =
  f_customerId :: string
  f_count :: int
  f_lastFlaggedAt :: "Date option"

record TimeSlot =
  ts_startTime :: Date
  ts_endTime :: Date

record DailyAvailability =
  da_date :: Date
  da_slots :: "TimeSlot list"

text \<open>The persistent store: one list of rows per table.\<close>

record Store =
  barbers :: "Barber list"
  availabilities :: "Availability list"
  services :: "Service list"
  users :: "User list"
  appointments :: "Appointment list"
  payments :: "Payment list"
  noShowFlags :: "NoShowFlag list"

section \<open>Time utilities (services/types.ts)\<close>

definition MS_PER_MINUTE :: int where
  "MS_PER_MINUTE = 60 * 1000"

definition MS_PER_HOUR :: int where
  "MS_PER_HOUR = 1000 * 60 * 60"

definition MS_PER_DAY :: int where
  "MS_PER_DAY = 86400000"

text \<open>\<open>timeStr.split(':')\<close>.\<close>

fun splitOn :: "char \<Rightarrow> string \<Rightarrow> string list" where
  "splitOn c [] = [[]]"
| "splitOn c (x # xs) =
     (if x = c then [] # splitOn c xs
      else (case splitOn c xs of [] \<Rightarrow> [[x]] | w # ws \<Rightarrow> (x # w) # ws))"

definition isDigit :: "char \<Rightarrow> bool" where
  "isDigit ch = (48 \<le> (of_char ch :: nat) \<and> (of_char ch :: nat) \<le> 57)"

text \<open>\<open>Number(s)\<close> on the fields of a time string: a string of decimal digits is its
  value and the empty string is 0; every other string is taken as \<open>NaN\<close> (\<open>None\<close>).
  (JavaScript also reads signs, blanks, fractions and hexadecimal; time strings do not
  carry them.)\<close>

definition Number :: "string \<Rightarrow> nat option" where
  "Number s =
     (if list_all isDigit s
      then Some (foldl (\<lambda>n ch. 10 * n + ((of_char ch :: nat) - 48)) 0 s)
      else None)"

text \<open>\<open>parseTimeString\<close>: the first two fields of the split; a missing field is
  \<open>undefined\<close>, which \<open>setHours\<close> reads as \<open>NaN\<close>.\<close>

definition parseTimeString :: "string \<Rightarrow> nat option \<times> nat option" where
  "parseTimeString timeStr =
     (case map Number (splitOn CHR '':'' timeStr) of
        [] \<Rightarrow> (None, None)
      | [h] \<Rightarrow> (h, None)
      | h # m # _ \<Rightarrow> (h, m))"

definition startOfDay :: "Date \<Rightarrow> Date" where
  "startOfDay date = date - date mod MS_PER_DAY"

definition endOfDay :: "Date \<Rightarrow> Date" where
  "endOfDay date = startOfDay date + (23 * MS_PER_HOUR + 59 * MS_PER_MINUTE + 59 * 1000 + 999)"

text \<open>\<open>combineDateAndTime\<close>: \<open>setHours(hours, minutes, 0, 0)\<close> on a copy of the date;
  \<open>None\<close> is the Invalid Date that \<open>setHours\<close> produces from a \<open>NaN\<close> argument.\<close>

definition combineDateAndTime :: "Date \<Rightarrow> string \<Rightarrow> Date option" where
  "combineDateAndTime date timeStr =
     (case parseTimeString timeStr of
        (Some hours, Some minutes) \<Rightarrow>
          Some (startOfDay date + int hours * MS_PER_HOUR + int minutes * MS_PER_MINUTE)
      | _ \<Rightarrow> None)"

text \<open>1970-01-01 was a Thursday (day 4, Sunday = 0).\<close>

definition getDayOfWeek :: "Date \<Rightarrow> int" where
  "getDayOfWeek date = (date div MS_PER_DAY + 4) mod 7"

definition doTimeRangesOverlap :: "Date \<Rightarrow> Date \<Rightarrow> Date \<Rightarrow> Date \<Rightarrow> bool" where
  "doTimeRangesOverlap start1 end1 start2 end2 = (start1 < end2 \<and> start2 < end1)"

definition addMinutes :: "Date \<Rightarrow> int \<Rightarrow> Date" where
  "addMinutes date minutes = date + minutes * 60 * 1000"


section \<open>Rule resolution and the booking-time availability check (appointment.service.ts)\<close>

text \<open>JavaScript truthiness of a string: the empty string is false.\<close>

definition truthy :: "string \<Rightarrow> bool" where
  "truthy s = (s \<noteq> [])"

text \<open>The two filters that both \<open>checkBarberAvailability\<close> and
  \<open>calculateDaySlotsForDate\<close> apply to the barber's availability records.\<close>

definition exceptionsForDate :: "Availability list \<Rightarrow> Date \<Rightarrow> Availability list" where
  "exceptionsForDate availability dayStart =
     filter (\<lambda>a. av_isException a \<and>
                 (case av_date a of None \<Rightarrow> False | Some d \<Rightarrow> startOfDay d = dayStart))
            availability"

definition weeklyForDay :: "Availability list \<Rightarrow> int \<Rightarrow> Availability list" where
  "weeklyForDay availability dayOfWeek =
     filter (\<lambda>a. \<not> av_isException a \<and> av_dayOfWeek a = dayOfWeek) availability"

definition hasValidTimeSlots :: "Availability list \<Rightarrow> bool" where
  "hasValidTimeSlots rules = list_ex (\<lambda>a. truthy (av_startTime a) \<and> truthy (av_endTime a)) rules"

datatype AvailabilityReason =
  DayOff | NoAvailabilitySet | WithinAvailability | OutsideAvailableHours

record AvailabilityCheckResult =
  available :: bool
  reason :: AvailabilityReason

text \<open>The test in the body of the loop over the applicable rules; a comparison with an
  Invalid Date is false.\<close>

definition fitsRule :: "Date \<Rightarrow> Availability \<Rightarrow> Date \<Rightarrow> Date \<Rightarrow> bool" where
  "fitsRule appointmentDate rule requestedStart requestedEnd =
     (case (combineDateAndTime appointmentDate (av_startTime rule),
            combineDateAndTime appointmentDate (av_endTime rule)) of
        (Some ruleStart, Some ruleEnd) \<Rightarrow> requestedStart \<ge> ruleStart \<and> requestedEnd \<le> ruleEnd
      | _ \<Rightarrow> False)"

definition checkBarberAvailability ::
  "Availability list \<Rightarrow> Date \<Rightarrow> Date \<Rightarrow> AvailabilityCheckResult" where
  "checkBarberAvailability availabilityRecords requestedStart requestedEnd =
     (let appointmentDate = startOfDay requestedStart;
          dayOfWeek = getDayOfWeek requestedStart;
          exceptionForDate = exceptionsForDate availabilityRecords appointmentDate;
          weekly = weeklyForDay availabilityRecords dayOfWeek;
          applicableRules = (if exceptionForDate \<noteq> [] then exceptionForDate else weekly)
      in if exceptionForDate \<noteq> [] \<and> \<not> hasValidTimeSlots exceptionForDate
         then \<lparr>available = False, reason = DayOff\<rparr>
         else if applicableRules = []
         then \<lparr>available = False, reason = NoAvailabilitySet\<rparr>
         else if list_ex (\<lambda>rule. fitsRule appointmentDate rule requestedStart requestedEnd)
                         applicableRules
         then \<lparr>available = True, reason = WithinAvailability\<rparr>
         else \<lparr>available = False, reason = OutsideAvailableHours\<rparr>)"

section \<open>Slot calculation (availability.service.ts)\<close>

text \<open>The walk over the sorted, relevant blocked ranges in \<open>subtractBlockedRanges\<close>;
  \<open>currentStart\<close> is the loop variable, and the equation for the empty list is the code
  after the loop.\<close>

fun subtractLoop :: "TimeSlot \<Rightarrow> Date \<Rightarrow> TimeSlot list \<Rightarrow> TimeSlot list" where
  "subtractLoop window currentStart [] =
     (if currentStart < ts_endTime window
      then [\<lparr>ts_startTime = currentStart, ts_endTime = ts_endTime window\<rparr>] else [])"
| "subtractLoop window currentStart (blocked # rest) =
     (if ts_startTime blocked > currentStart
      then [\<lparr>ts_startTime = currentStart,
             ts_endTime = min (ts_startTime blocked) (ts_endTime window)\<rparr>]
      else []) @
     subtractLoop window
       (if ts_endTime blocked > currentStart then ts_endTime blocked else currentStart) rest"

definition subtractBlockedRanges :: "TimeSlot \<Rightarrow> TimeSlot list \<Rightarrow> TimeSlot list" where
  "subtractBlockedRanges window blocked =
     (let sortedBlocked = sort_key ts_startTime blocked;
          relevantBlocked =
            filter (\<lambda>b. ts_startTime b < ts_endTime window \<and> ts_endTime b > ts_startTime window)
                   sortedBlocked
      in if relevantBlocked = [] then [window]
         else subtractLoop window (ts_startTime window) relevantBlocked)"

text \<open>The body of the loop over the applicable rules in \<open>calculateDaySlotsForDate\<close>:
  the free slots of one availability window. When a bound of the window is an Invalid
  Date, every comparison with it is false, so the source keeps the window whole and its
  final duration filter (\<open>NaN >= slotDurationMinutes\<close>) drops it: such a rule adds
  nothing to the result.\<close>

definition ruleFreeSlots :: "Date \<Rightarrow> Availability \<Rightarrow> TimeSlot list \<Rightarrow> Date \<Rightarrow> TimeSlot list" where
  "ruleFreeSlots date rule blockedRanges now =
     (case (combineDateAndTime date (av_startTime rule),
            combineDateAndTime date (av_endTime rule)) of
        (Some windowStart, Some windowEnd) \<Rightarrow>
          if windowEnd \<le> now then []
          else (let effectiveStart = (if windowStart < now then now else windowStart)
                in subtractBlockedRanges
                     \<lparr>ts_startTime = effectiveStart, ts_endTime = windowEnd\<rparr> blockedRanges)
      | _ \<Rightarrow> [])"

definition calculateDaySlotsForDate ::
  "Date \<Rightarrow> Availability list \<Rightarrow> Appointment list \<Rightarrow> int \<Rightarrow> int \<Rightarrow> Date \<Rightarrow> TimeSlot list" where
  "calculateDaySlotsForDate date availability appts slotDurationMinutes bufferMins now =
     (let dayStart = startOfDay date;
          dayOfWeek = getDayOfWeek date;
          exceptions = exceptionsForDate availability dayStart;
          weekly = weeklyForDay availability dayOfWeek;
          applicableRules = (if exceptions \<noteq> [] then exceptions else weekly)
      in if exceptions \<noteq> [] \<and> \<not> hasValidTimeSlots exceptions then []
         else if applicableRules = [] then []
         else
           (let dayEnd = endOfDay date;
                dayAppointments =
                  filter (\<lambda>apt. a_startTime apt \<ge> dayStart \<and> a_startTime apt \<le> dayEnd) appts;
                blockedRanges =
                  map (\<lambda>apt. \<lparr>ts_startTime = a_startTime apt - bufferMins * 60 * 1000,
                               ts_endTime = a_endTime apt + bufferMins * 60 * 1000\<rparr>)
                      dayAppointments;
                allFreeSlots =
                  concat (map (\<lambda>rule. ruleFreeSlots date rule blockedRanges now) applicableRules)
            in filter (\<lambda>slot. ts_endTime slot - ts_startTime slot
                               \<ge> slotDurationMinutes * (60 * 1000))
                      allFreeSlots))"

record AvailableSlotsInput =
  in_barberId :: string
  in_startDate :: Date
  in_endDate :: Date
  in_serviceDurationMinutes :: "int option"

text \<open>The \<open>while (currentDate <= normalizedEndDate)\<close> loop of \<open>getAvailableSlots\<close>;
  \<open>setDate(getDate() + 1)\<close> moves to the same time on the next day.\<close>

function dayLoop ::
  "Date \<Rightarrow> Date \<Rightarrow> Availability list \<Rightarrow> Appointment list \<Rightarrow> int \<Rightarrow> int \<Rightarrow> Date
   \<Rightarrow> DailyAvailability list" where
  "dayLoop currentDate normalizedEndDate availability appts slotDuration bufferMins now =
     (if currentDate \<le> normalizedEndDate
      then (let daySlots = calculateDaySlotsForDate currentDate availability appts
                             slotDuration bufferMins now
            in (if daySlots \<noteq> [] then [\<lparr>da_date = currentDate, da_slots = daySlots\<rparr>] else []) @
               dayLoop (currentDate + MS_PER_DAY) normalizedEndDate availability appts
                 slotDuration bufferMins now)
      else [])"
  by pat_completeness auto
termination
  by (relation "measure (\<lambda>(c, e, _). nat (e - c + 1))") (auto simp: MS_PER_DAY_def)

declare dayLoop.simps [simp del]

definition getAvailableSlots ::
  "Store \<Rightarrow> AvailableSlotsInput \<Rightarrow> BookingConfig \<Rightarrow> Date \<Rightarrow> DailyAvailability list ServiceResult"
  where
  "getAvailableSlots store input mergedConfig now =
     (if in_startDate input \<ge> in_endDate input then Failure INVALID_DATE_RANGE
      else
        (let today = startOfDay now;
             normalizedStartDate =
               (if in_startDate input < today then today else startOfDay (in_startDate input));
             normalizedEndDate = endOfDay (in_endDate input)
         in case find (\<lambda>b. b_id b = in_barberId input) (barbers store) of
              None \<Rightarrow> Failure BARBER_NOT_FOUND
            | Some barber \<Rightarrow>
                if \<not> b_active barber then Failure BARBER_NOT_ACTIVE
                else
                  (let availability =
                         filter (\<lambda>a. av_barberId a = b_id barber) (availabilities store);
                       existingAppointments =
                         sort_key a_startTime
                           (filter (\<lambda>a. a_barberId a = in_barberId input \<and> a_status a = BOOKED \<and>
                                        a_startTime a \<ge> normalizedStartDate \<and>
                                        a_endTime a \<le> normalizedEndDate)
                                   (appointments store));
                       slotDuration =
                         (case in_serviceDurationMinutes input of
                            Some d \<Rightarrow> d
                          | None \<Rightarrow> defaultSlotDurationMinutes mergedConfig)
                   in Success (dayLoop normalizedStartDate normalizedEndDate availability
                                 existingAppointments slotDuration
                                 (bufferMinutes mergedConfig) now))))"

text \<open>\<open>roundUpToInterval\<close>. The JavaScript remainder of the non-negative \<open>minutes\<close>
  has the sign of \<open>minutes\<close>; with \<open>intervalMinutes = 0\<close> it is \<open>NaN\<close> and the result
  is an Invalid Date (\<open>None\<close>).\<close>

definition roundUpToInterval :: "Date \<Rightarrow> int \<Rightarrow> Date option" where
  "roundUpToInterval date intervalMinutes =
     (if intervalMinutes = 0 then None
      else
        (let minutes = (date mod MS_PER_HOUR) div MS_PER_MINUTE;
             remainder = minutes mod \<bar>intervalMinutes\<bar>
         in if remainder = 0 \<and> (date mod MS_PER_MINUTE) div 1000 = 0 \<and> date mod 1000 = 0
            then Some date
            else Some (date - date mod MS_PER_HOUR
                       + (minutes + (intervalMinutes - remainder)) * MS_PER_MINUTE)))"

text \<open>The \<open>while (true)\<close> loop of \<open>generateDiscreteSlots\<close> for one window. It need not
  end (an interval that is not positive never moves \<open>slotStart\<close> past the window; with an
  Invalid Date the test \<open>slotEnd > window.endTime\<close> is never true), so the loop is a
  partial function and \<open>None\<close> means that it does not return.\<close>

partial_function (option) slotLoop ::
  "TimeSlot \<Rightarrow> int \<Rightarrow> int \<Rightarrow> Date option \<Rightarrow> TimeSlot list \<Rightarrow> TimeSlot list option" where
  "slotLoop window serviceDurationMinutes intervalMinutes slotStart slots =
     (case slotStart of
        None \<Rightarrow> slotLoop window serviceDurationMinutes intervalMinutes None slots
      | Some s \<Rightarrow>
          (let slotEnd = addMinutes s serviceDurationMinutes
           in if slotEnd > ts_endTime window then Some slots
              else slotLoop window serviceDurationMinutes intervalMinutes
                     (Some (addMinutes s intervalMinutes))
                     (slots @ [\<lparr>ts_startTime = s, ts_endTime = slotEnd\<rparr>])))"

declare slotLoop.simps [code]

fun generateDiscreteSlotsFrom ::
  "TimeSlot list \<Rightarrow> int \<Rightarrow> int \<Rightarrow> TimeSlot list \<Rightarrow> TimeSlot list option" where
  "generateDiscreteSlotsFrom [] serviceDurationMinutes intervalMinutes slots = Some slots"
| "generateDiscreteSlotsFrom (window # rest) serviceDurationMinutes intervalMinutes slots =
     (case slotLoop window serviceDurationMinutes intervalMinutes
             (roundUpToInterval (ts_startTime window) intervalMinutes) slots of
        None \<Rightarrow> None
      | Some slots' \<Rightarrow>
          generateDiscreteSlotsFrom rest serviceDurationMinutes intervalMinutes slots')"

definition generateDiscreteSlots :: "TimeSlot list \<Rightarrow> int \<Rightarrow> int \<Rightarrow> TimeSlot list option" where
  "generateDiscreteSlots freeWindows serviceDurationMinutes intervalMinutes =
     generateDiscreteSlotsFrom freeWindows serviceDurationMinutes intervalMinutes []"

text \<open>\<open>windowsResult.data.map(...)\<close> in \<open>getBookableSlots\<close>.\<close>

fun mapDays :: "DailyAvailability list \<Rightarrow> int \<Rightarrow> int \<Rightarrow> DailyAvailability list option" where
  "mapDays [] serviceDuration intervalMinutes = Some []"
| "mapDays (day # rest) serviceDuration intervalMinutes =
     (case generateDiscreteSlots (da_slots day) serviceDuration intervalMinutes of
        None \<Rightarrow> None
      | Some slots \<Rightarrow>
          (case mapDays rest serviceDuration intervalMinutes of
             None \<Rightarrow> None
           | Some days \<Rightarrow> Some (\<lparr>da_date = da_date day, da_slots = slots\<rparr> # days)))"

definition getBookableSlots ::
  "Store \<Rightarrow> AvailableSlotsInput \<Rightarrow> int \<Rightarrow> BookingConfig \<Rightarrow> Date
   \<Rightarrow> DailyAvailability list ServiceResult option" where
  "getBookableSlots store input slotIntervalMinutes mergedConfig now =
     (case getAvailableSlots store input mergedConfig now of
        Failure e \<Rightarrow> Some (Failure e)
      | Success days \<Rightarrow>
          (let serviceDuration =
                 (case in_serviceDurationMinutes input of
                    Some d \<Rightarrow> d
                  | None \<Rightarrow> defaultSlotDurationMinutes DEFAULT_BOOKING_CONFIG)
           in case mapDays days serviceDuration slotIntervalMinutes of
                None \<Rightarrow> None
              | Some bookableSlots \<Rightarrow>
                  Some (Success (filter (\<lambda>day. da_slots day \<noteq> []) bookableSlots))))"


section \<open>Store access\<close>

text \<open>\<open>update({ where: { id }, data })\<close> on the appointment and payment tables, and the
  \<open>upsert\<close> of a customer's no-show flag (increment, or create with count 1); the
  upsert returns the row it wrote.\<close>

definition updateAppointment :: "string \<Rightarrow> (Appointment \<Rightarrow> Appointment) \<Rightarrow> Store \<Rightarrow> Store" where
  "updateAppointment i f store =
     store\<lparr>appointments := map (\<lambda>a. if a_id a = i then f a else a) (appointments store)\<rparr>"

definition updatePayment :: "string \<Rightarrow> (Payment \<Rightarrow> Payment) \<Rightarrow> Store \<Rightarrow> Store" where
  "updatePayment i f store =
     store\<lparr>payments := map (\<lambda>p. if p_id p = i then f p else p) (payments store)\<rparr>"

definition upsertNoShowFlag :: "string \<Rightarrow> Date \<Rightarrow> Store \<Rightarrow> NoShowFlag \<times> Store" where
  "upsertNoShowFlag customerId now store =
     (case find (\<lambda>f. f_customerId f = customerId) (noShowFlags store) of
        None \<Rightarrow>
          (let created = \<lparr>f_customerId = customerId, f_count = 1, f_lastFlaggedAt = Some now\<rparr>
           in (created, store\<lparr>noShowFlags := noShowFlags store @ [created]\<rparr>))
      | Some existing \<Rightarrow>
          (let bump = (\<lambda>f. f\<lparr>f_count := f_count f + 1, f_lastFlaggedAt := Some now\<rparr>)
           in (bump existing,
               store\<lparr>noShowFlags :=
                 map (\<lambda>f. if f_customerId f = customerId then bump f else f)
                     (noShowFlags store)\<rparr>)))"

section \<open>No-show policy (cancellation.service.ts)\<close>

record NoShowCount =
  nc_count :: int
  nc_lastFlaggedAt :: "Date option"

record BlockedResult =
  blocked :: bool
  noShowCount :: int

definition getCustomerNoShowCount :: "Store \<Rightarrow> string \<Rightarrow> NoShowCount ServiceResult" where
  "getCustomerNoShowCount store customerId =
     (case find (\<lambda>f. f_customerId f = customerId) (noShowFlags store) of
        None \<Rightarrow> Success \<lparr>nc_count = 0, nc_lastFlaggedAt = None\<rparr>
      | Some noShowFlag \<Rightarrow>
          Success \<lparr>nc_count = f_count noShowFlag, nc_lastFlaggedAt = f_lastFlaggedAt noShowFlag\<rparr>)"

definition resetNoShowCount :: "Store \<Rightarrow> string \<Rightarrow> int ServiceResult \<times> Store" where
  "resetNoShowCount store customerId =
     (case find (\<lambda>f. f_customerId f = customerId) (noShowFlags store) of
        None \<Rightarrow> (Success 0, store)
      | Some noShowFlag \<Rightarrow>
          (Success (f_count noShowFlag),
           store\<lparr>noShowFlags :=
             map (\<lambda>f. if f_customerId f = customerId
                       then f\<lparr>f_count := 0, f_lastFlaggedAt := None\<rparr> else f)
                 (noShowFlags store)\<rparr>))"

definition isCustomerBlocked :: "Store \<Rightarrow> string \<Rightarrow> int \<Rightarrow> BlockedResult ServiceResult" where
  "isCustomerBlocked store customerId maxNoShows =
     (case getCustomerNoShowCount store customerId of
        Failure e \<Rightarrow> Failure e
      | Success r \<Rightarrow> Success \<lparr>blocked = (nc_count r \<ge> maxNoShows), noShowCount = nc_count r\<rparr>)"

section \<open>Booking (appointment.service.ts)\<close>

record CreateAppointmentInput =
  ci_barberId :: string
  ci_customerId :: string
  ci_serviceId :: string
  ci_startTime :: Date

text \<open>The \<open>where\<close> clause of the overlap query and the filter that follows it.\<close>

definition overlapQuery :: "string \<Rightarrow> Date \<Rightarrow> Date \<Rightarrow> Appointment \<Rightarrow> bool" where
  "overlapQuery barberId searchStart searchEnd apt =
     (a_barberId apt = barberId \<and> a_status apt \<in> set [BOOKED] \<and>
      ((a_startTime apt \<ge> searchStart \<and> a_startTime apt < searchEnd) \<or>
       (a_endTime apt > searchStart \<and> a_endTime apt \<le> searchEnd) \<or>
       (a_startTime apt \<le> searchStart \<and> a_endTime apt \<ge> searchEnd)))"

definition confirmedOverlaps ::
  "Store \<Rightarrow> string \<Rightarrow> Date \<Rightarrow> Date \<Rightarrow> int \<Rightarrow> Appointment list" where
  "confirmedOverlaps store barberId startTime endTime bufferMs =
     (let searchStart = startTime - bufferMs;
          searchEnd = endTime + bufferMs;
          overlappingAppointments =
            filter (overlapQuery barberId searchStart searchEnd) (appointments store)
      in filter (\<lambda>apt. doTimeRangesOverlap startTime endTime
                          (a_startTime apt - bufferMs) (a_endTime apt + bufferMs))
                overlappingAppointments)"

text \<open>\<open>createAppointment\<close>. The transaction runs alone (the serialization failure that
  the source maps to \<open>CONCURRENT_MODIFICATION\<close> needs a concurrent transaction); the id
  of the new row, which the database generates, is the parameter \<open>newId\<close>. The result
  carries the created row.\<close>

definition createAppointment ::
  "Store \<Rightarrow> CreateAppointmentInput \<Rightarrow> BookingConfig \<Rightarrow> Date \<Rightarrow> string
   \<Rightarrow> Appointment ServiceResult \<times> Store" where
  "createAppointment store input mergedConfig now newId =
     (let barberId = ci_barberId input; customerId = ci_customerId input;
          serviceId = ci_serviceId input; startTime = ci_startTime input
      in if startTime \<le> now then (Failure BOOKING_IN_PAST, store)
         else if (case isCustomerBlocked store customerId 3 of
                    Success r \<Rightarrow> blocked r | Failure _ \<Rightarrow> False)
         then (Failure CUSTOMER_BLOCKED, store)
         else
           (case find (\<lambda>b. b_id b = barberId) (barbers store) of
              None \<Rightarrow> (Failure BARBER_NOT_FOUND, store)
            | Some barber \<Rightarrow>
                if \<not> b_active barber then (Failure BARBER_NOT_ACTIVE, store)
                else
                  (case find (\<lambda>sv. s_id sv = serviceId) (services store) of
                     None \<Rightarrow> (Failure SERVICE_NOT_FOUND, store)
                   | Some service \<Rightarrow>
                       (case find (\<lambda>u. u_id u = customerId) (users store) of
                          None \<Rightarrow> (Failure CUSTOMER_NOT_FOUND, store)
                        | Some customer \<Rightarrow>
                            (let endTime = addMinutes startTime (s_durationMinutes service);
                                 availability =
                                   filter (\<lambda>a. av_barberId a = b_id barber) (availabilities store);
                                 availabilityCheck =
                                   checkBarberAvailability availability startTime endTime
                             in if \<not> available availabilityCheck
                                then (Failure BARBER_UNAVAILABLE, store)
                                else
                                  (let bufferMs = bufferMinutes mergedConfig * 60 * 1000
                                   in if confirmedOverlaps store barberId startTime endTime bufferMs
                                         \<noteq> []
                                      then (Failure OVERLAPPING_APPOINTMENT, store)
                                      else
                                        (let appointment =
                                               \<lparr>a_id = newId, a_barberId = barberId,
                                                a_customerId = customerId, a_serviceId = serviceId,
                                                a_startTime = startTime, a_endTime = endTime,
                                                a_status = BOOKED, a_cancellationReason = None,
                                                a_createdAt = now\<rparr>
                                         in (Success appointment,
                                             store\<lparr>appointments :=
                                               appointments store @ [appointment]\<rparr>))))))))"

section \<open>Lifecycle services (cancellation.service.ts)\<close>

record CancelAppointmentInput =
  cn_appointmentId :: string
  cn_reason :: "string option"

record CancellationResult =
  cr_appointmentId :: string
  cr_status :: AppointmentStatus
  cr_wasLateCancellation :: bool

record NoShowResult =
  ns_appointmentId :: string
  ns_customerId :: string
  ns_noShowCount :: int

text \<open>\<open>cancelAppointment\<close> of the service layer. \<open>differenceInHours\<close> of types.ts is
  the exact quotient of the millisecond difference by an hour, so the comparison with
  \<open>lateCancellationHours\<close> is made on milliseconds.\<close>

definition cancelAppointment ::
  "Store \<Rightarrow> CancelAppointmentInput \<Rightarrow> BookingConfig \<Rightarrow> Date
   \<Rightarrow> CancellationResult ServiceResult \<times> Store" where
  "cancelAppointment store input mergedConfig now =
     (let appointmentId = cn_appointmentId input
      in case find (\<lambda>a. a_id a = appointmentId) (appointments store) of
           None \<Rightarrow> (Failure APPOINTMENT_NOT_FOUND, store)
         | Some appointment \<Rightarrow>
             if a_status appointment = CANCELLED then (Failure APPOINTMENT_ALREADY_CANCELLED, store)
             else if a_status appointment = COMPLETED
             then (Failure APPOINTMENT_ALREADY_COMPLETED, store)
             else if a_status appointment = NO_SHOW
             then (Failure APPOINTMENT_ALREADY_COMPLETED, store)
             else if a_startTime appointment \<le> now
             then (Failure CANNOT_CANCEL_PAST_APPOINTMENT, store)
             else
               (let wasLateCancellation =
                      (a_startTime appointment - now
                         < lateCancellationHours mergedConfig * MS_PER_HOUR);
                    newReason =
                      (case cn_reason input of
                         Some r \<Rightarrow> r
                       | None \<Rightarrow> if wasLateCancellation then ''Late cancellation''
                                 else ''Cancelled by user'')
                in (Success \<lparr>cr_appointmentId = appointmentId, cr_status = CANCELLED,
                             cr_wasLateCancellation = wasLateCancellation\<rparr>,
                    updateAppointment appointmentId
                      (\<lambda>a. a\<lparr>a_status := CANCELLED, a_cancellationReason := Some newReason\<rparr>)
                      store)))"

definition markNoShow :: "Store \<Rightarrow> string \<Rightarrow> Date \<Rightarrow> NoShowResult ServiceResult \<times> Store" where
  "markNoShow store appointmentId now =
     (case find (\<lambda>a. a_id a = appointmentId) (appointments store) of
        None \<Rightarrow> (Failure APPOINTMENT_NOT_FOUND, store)
      | Some appointment \<Rightarrow>
          if a_status appointment \<noteq> BOOKED then (Failure APPOINTMENT_ALREADY_COMPLETED, store)
          else if a_startTime appointment > now then (Failure BOOKING_IN_PAST, store)
          else
            (let store1 = updateAppointment appointmentId (\<lambda>a. a\<lparr>a_status := NO_SHOW\<rparr>) store;
                 (noShowFlag, store2) = upsertNoShowFlag (a_customerId appointment) now store1
             in (Success \<lparr>ns_appointmentId = appointmentId,
                          ns_customerId = a_customerId appointment,
                          ns_noShowCount = f_count noShowFlag\<rparr>,
                 store2)))"

definition completeAppointment ::
  "Store \<Rightarrow> string \<Rightarrow> (string \<times> AppointmentStatus) ServiceResult \<times> Store" where
  "completeAppointment store appointmentId =
     (case find (\<lambda>a. a_id a = appointmentId) (appointments store) of
        None \<Rightarrow> (Failure APPOINTMENT_NOT_FOUND, store)
      | Some appointment \<Rightarrow>
          if a_status appointment \<noteq> BOOKED then (Failure APPOINTMENT_ALREADY_COMPLETED, store)
          else (Success (appointmentId, COMPLETED),
                updateAppointment appointmentId (\<lambda>a. a\<lparr>a_status := COMPLETED\<rparr>) store))"

text \<open>\<open>detectAndMarkNoShows\<close>: the overdue BOOKED appointments, each passed to
  \<open>markNoShow\<close>; the result pairs each id with the success of its call.\<close>

fun markEach :: "Store \<Rightarrow> Appointment list \<Rightarrow> Date \<Rightarrow> (string \<times> bool) list \<times> Store" where
  "markEach store [] now = ([], store)"
| "markEach store (appointment # rest) now =
     (let (markResult, store1) = markNoShow store (a_id appointment) now;
          ok = (case markResult of Success _ \<Rightarrow> True | Failure _ \<Rightarrow> False);
          (results, store2) = markEach store1 rest now
      in ((a_id appointment, ok) # results, store2))"

definition detectAndMarkNoShows ::
  "Store \<Rightarrow> int \<Rightarrow> Date \<Rightarrow> (nat \<times> (string \<times> bool) list) \<times> Store" where
  "detectAndMarkNoShows store gracePeriodMinutes now =
     (let cutoffTime = now - gracePeriodMinutes * 60 * 1000;
          overdueAppointments =
            sort_key a_endTime
              (filter (\<lambda>a. a_status a = BOOKED \<and> a_endTime a < cutoffTime) (appointments store));
          (results, store') = markEach store overdueAppointments now
      in ((length overdueAppointments, results), store'))"

record NoShowDetectionResult =
  scanned :: nat
  markedAsNoShow :: nat
  details :: "NoShowResult list"

text \<open>\<open>detectNoShows\<close>: the selection of the sweep, and its loop with one transaction
  per selected appointment.\<close>

definition eligibleAppointments :: "Store \<Rightarrow> Date \<Rightarrow> Appointment list" where
  "eligibleAppointments store now =
     (let gracePeriodMs = GRACE_PERIOD_MINUTES * 60 * 1000;
          cutoffTime = now - gracePeriodMs
      in sort_key a_startTime
           (filter (\<lambda>a. a_status a = CONFIRMED \<and> a_startTime a < cutoffTime)
                   (appointments store)))"

fun sweepEach :: "Store \<Rightarrow> Appointment list \<Rightarrow> Date \<Rightarrow> NoShowResult list \<times> Store" where
  "sweepEach store [] now = ([], store)"
| "sweepEach store (appointment # rest) now =
     (let store1 = updateAppointment (a_id appointment) (\<lambda>a. a\<lparr>a_status := NO_SHOW\<rparr>) store;
          (noShowFlag, store2) = upsertNoShowFlag (a_customerId appointment) now store1;
          result = \<lparr>ns_appointmentId = a_id appointment,
                    ns_customerId = a_customerId appointment,
                    ns_noShowCount = f_count noShowFlag\<rparr>;
          (rest_details, store3) = sweepEach store2 rest now
      in (result # rest_details, store3))"

definition detectNoShows :: "Store \<Rightarrow> Date \<Rightarrow> NoShowDetectionResult \<times> Store" where
  "detectNoShows store now =
     (let eligible = eligibleAppointments store now;
          (ds, store') = sweepEach store eligible now
      in (\<lparr>scanned = length eligible, markedAsNoShow = length ds, details = ds\<rparr>, store'))"


section \<open>The cancel route (routes/appointments.ts)\<close>

text \<open>A reply of the route: an error status with its code, or the hydrated appointment
  (the row with its payment). The payment gateway is a parameter: \<open>gateway pi\<close> tells
  whether \<open>refundPayment pi\<close> returns (\<open>True\<close>) or throws. The third component of the
  result is the sequence of outside effects in the order the handler performs them.\<close>

datatype RouteResponse =
    RouteError nat string
  | RouteOk "(Appointment \<times> Payment option) option"

datatype Effect = RefundCall string | DbCommit

text \<open>\<open>isAfter\<close> and \<open>differenceInHours\<close> of date-fns: a strict comparison, and the
  number of full hours between two dates, truncated towards zero.\<close>

definition isAfter :: "Date \<Rightarrow> Date \<Rightarrow> bool" where
  "isAfter date dateToCompare = (date > dateToCompare)"

definition differenceInHours :: "Date \<Rightarrow> Date \<Rightarrow> int" where
  "differenceInHours dateLeft dateRight =
     (let diff = dateLeft - dateRight
      in if diff \<ge> 0 then diff div MS_PER_HOUR else - ((- diff) div MS_PER_HOUR))"

definition hydrate :: "Store \<Rightarrow> string \<Rightarrow> (Appointment \<times> Payment option) option" where
  "hydrate store i =
     (case find (\<lambda>a. a_id a = i) (appointments store) of
        None \<Rightarrow> None
      | Some a \<Rightarrow> Some (a, find (\<lambda>p. p_appointmentId p = Some i) (payments store)))"

definition cancelRoute ::
  "(string \<Rightarrow> bool) \<Rightarrow> Store \<Rightarrow> string \<Rightarrow> string option \<Rightarrow> Date
   \<Rightarrow> RouteResponse \<times> Store \<times> Effect list" where
  "cancelRoute gateway store i bodyReason now =
     (case hydrate store i of
        None \<Rightarrow> (RouteError 404 ''APPOINTMENT_NOT_FOUND'', store, [])
      | Some (appointment, payment) \<Rightarrow>
          if a_status appointment = CANCELLED \<or> a_status appointment = COMPLETED \<or>
             a_status appointment = NO_SHOW
          then (RouteError 400 ''INVALID_APPOINTMENT_STATE'', store, [])
          else if isAfter now (a_startTime appointment)
          then (RouteError 400 ''CANCELLATION_WINDOW_PASSED'', store, [])
          else
            (let hoursBeforeStart = differenceInHours (a_startTime appointment) now;
                 shouldRefund =
                   (case payment of
                      None \<Rightarrow> False
                    | Some p \<Rightarrow> p_status p = PAID \<and> hoursBeforeStart \<ge> REFUND_CUTOFF_HOURS);
                 refundCalls =
                   (case payment of
                      None \<Rightarrow> []
                    | Some p \<Rightarrow>
                        if shouldRefund then [RefundCall (p_stripePaymentIntentId p)] else []);
                 refundThrows =
                   (case payment of
                      None \<Rightarrow> False
                    | Some p \<Rightarrow> shouldRefund \<and> \<not> gateway (p_stripePaymentIntentId p))
             in if refundThrows then (RouteError 500 ''STRIPE_ERROR'', store, refundCalls)
                else
                  (let store1 =
                         updateAppointment i
                           (\<lambda>a. a\<lparr>a_status := CANCELLED,
                                   a_cancellationReason :=
                                     (case bodyReason of
                                        None \<Rightarrow> None
                                      | Some r \<Rightarrow> if truthy r then Some r else None)\<rparr>)
                           store;
                       store2 =
                         (case payment of
                            None \<Rightarrow> store1
                          | Some p \<Rightarrow>
                              updatePayment (p_id p)
                                (\<lambda>q. q\<lparr>p_status :=
                                          (if shouldRefund then REFUNDED else p_status p)\<rparr>)
                                store1)
                   in (RouteOk (hydrate store2 i), store2, refundCalls @ [DbCommit]))))"

section \<open>Payments: the intent, the webhook and the stale-booking cleanup\<close>

record AuthUser =
  au_userId :: string
  au_role :: UserRole
  au_barberId :: "string option"
  au_shopId :: "string option"

text \<open>What \<open>stripe.paymentIntents.create\<close> does: it returns an intent (id and client
  secret), or throws a Stripe error or another error.\<close>

datatype IntentOutcome = IntentCreated string string | StripeThrows | OtherThrows

definition checkAuthorization :: "Store \<Rightarrow> Appointment \<Rightarrow> AuthUser \<Rightarrow> bool" where
  "checkAuthorization store appointment user =
     (if au_role user = ADMIN then True
      else if au_role user = CUSTOMER then a_customerId appointment = au_userId user
      else if au_role user = BARBER then Some (a_barberId appointment) = au_barberId user
      else if au_role user = SHOP_OWNER
      then map_option b_shopId (find (\<lambda>b. b_id b = a_barberId appointment) (barbers store))
             = au_shopId user
      else False)"

definition DEPOSIT_AMOUNT_CENTS :: int where
  "DEPOSIT_AMOUNT_CENTS = 500"

definition createPaymentIntentForAppointment ::
  "IntentOutcome \<Rightarrow> Store \<Rightarrow> string \<Rightarrow> AuthUser \<Rightarrow> string
   \<Rightarrow> string ServiceResult \<times> Store" where
  "createPaymentIntentForAppointment outcome store appointmentId user newId =
     (case find (\<lambda>a. a_id a = appointmentId) (appointments store) of
        None \<Rightarrow> (Failure APPOINTMENT_NOT_FOUND, store)
      | Some appointment \<Rightarrow>
          if \<not> checkAuthorization store appointment user then (Failure FORBIDDEN, store)
          else if a_status appointment \<noteq> BOOKED then (Failure INVALID_APPOINTMENT_STATE, store)
          else if find (\<lambda>p. p_appointmentId p = Some appointmentId) (payments store) \<noteq> None
          then (Failure PAYMENT_ALREADY_EXISTS, store)
          else
            (case outcome of
               StripeThrows \<Rightarrow> (Failure STRIPE_ERROR, store)
             | OtherThrows \<Rightarrow> (Failure INTERNAL_ERROR, store)
             | IntentCreated intentId clientSecret \<Rightarrow>
                 (Success clientSecret,
                  store\<lparr>payments := payments store @
                    [\<lparr>p_id = newId, p_stripePaymentIntentId = intentId,
                      p_amountCents = DEPOSIT_AMOUNT_CENTS, p_status = REQUIRES_PAYMENT,
                      p_customerId = a_customerId appointment,
                      p_appointmentId = Some (a_id appointment)\<rparr>]\<rparr>)))"

text \<open>The webhook handlers for \<open>payment_intent.succeeded\<close> and
  \<open>payment_intent.payment_failed\<close> (after the signature check).\<close>

definition paymentIntentSucceeded :: "Store \<Rightarrow> string \<Rightarrow> Store" where
  "paymentIntentSucceeded store intentId =
     (case find (\<lambda>p. p_stripePaymentIntentId p = intentId) (payments store) of
        None \<Rightarrow> store
      | Some payment \<Rightarrow>
          if p_status payment = PAID then store
          else
            (let store1 = updatePayment (p_id payment) (\<lambda>p. p\<lparr>p_status := PAID\<rparr>) store
             in case p_appointmentId payment of
                  None \<Rightarrow> store1
                | Some appointmentId \<Rightarrow>
                    updateAppointment appointmentId (\<lambda>a. a\<lparr>a_status := CONFIRMED\<rparr>) store1))"

definition paymentIntentFailed :: "Store \<Rightarrow> string \<Rightarrow> Store" where
  "paymentIntentFailed store intentId =
     store\<lparr>payments :=
       map (\<lambda>p. if p_stripePaymentIntentId p = intentId \<and> p_status p = REQUIRES_PAYMENT
                 then p\<lparr>p_status := FAILED\<rparr> else p)
           (payments store)\<rparr>"

text \<open>scripts/cleanup-stale-bookings.ts: the query for the stale bookings, and the loop
  that cancels each of them with the payment that the query read.\<close>

definition staleAppointments :: "Store \<Rightarrow> Date \<Rightarrow> (Appointment \<times> Payment option) list" where
  "staleAppointments store now =
     (let cutoffTime = now - STALE_THRESHOLD_MINUTES * MS_PER_MINUTE
      in filter (\<lambda>(a, payment). a_status a = BOOKED \<and> a_createdAt a < cutoffTime \<and>
                                (case payment of
                                   None \<Rightarrow> True
                                 | Some p \<Rightarrow> p_status p = REQUIRES_PAYMENT))
           (map (\<lambda>a. (a, find (\<lambda>p. p_appointmentId p = Some (a_id a)) (payments store)))
                (appointments store)))"

fun cancelEach :: "Store \<Rightarrow> (Appointment \<times> Payment option) list \<Rightarrow> Store" where
  "cancelEach store [] = store"
| "cancelEach store ((appointment, payment) # rest) =
     (let store1 =
            updateAppointment (a_id appointment)
              (\<lambda>a. a\<lparr>a_status := CANCELLED,
                      a_cancellationReason :=
                        Some ''Automatic cancellation: payment not completed within 30 minutes''\<rparr>)
              store;
          store2 =
            (case payment of
               None \<Rightarrow> store1
             | Some p \<Rightarrow> updatePayment (p_id p) (\<lambda>q. q\<lparr>p_status := FAILED\<rparr>) store1)
      in cancelEach store2 rest)"

definition cleanupStaleBookings :: "Store \<Rightarrow> Date \<Rightarrow> Store" where
  "cleanupStaleBookings store now = cancelEach store (staleAppointments store now)"


section \<open>Properties of store states\<close>

text \<open>The rows of a table taken two at a time: \<open>eachPair P xs\<close> holds when \<open>P x y\<close> holds
  for every row \<open>x\<close> and every later row \<open>y\<close>.\<close>

definition eachPair :: "('a \<Rightarrow> 'a \<Rightarrow> bool) \<Rightarrow> 'a list \<Rightarrow> bool" where
  "eachPair P xs = sorted_wrt P xs"

definition isActive :: "Appointment \<Rightarrow> bool" where
  "isActive a = (a_status a = BOOKED \<or> a_status a = CONFIRMED)"

text \<open>Two appointments whose buffered ranges \<open>[startTime - buffer, endTime + buffer)\<close>
  intersect, and the state property that no two active appointments of one barber do.\<close>

definition bufferedRangesIntersect :: "int \<Rightarrow> Appointment \<Rightarrow> Appointment \<Rightarrow> bool" where
  "bufferedRangesIntersect bufferMs x y =
     doTimeRangesOverlap (a_startTime x - bufferMs) (a_endTime x + bufferMs)
                         (a_startTime y - bufferMs) (a_endTime y + bufferMs)"

definition noBufferedIntersection :: "int \<Rightarrow> Store \<Rightarrow> bool" where
  "noBufferedIntersection bufferMs store =
     eachPair (\<lambda>x y. \<not> (a_barberId x = a_barberId y \<and> isActive x \<and> isActive y \<and>
                         bufferedRangesIntersect bufferMs x y))
              (appointments store)"

text \<open>The range \<open>[startTime, endTime)\<close> of one appointment against the buffered range of
  the other, which is the test that \<open>createAppointment\<close> makes, and the state property
  that no two BOOKED appointments of one barber fail it.\<close>

definition withinBuffer :: "int \<Rightarrow> Appointment \<Rightarrow> Appointment \<Rightarrow> bool" where
  "withinBuffer bufferMs x y =
     doTimeRangesOverlap (a_startTime x) (a_endTime x)
                         (a_startTime y - bufferMs) (a_endTime y + bufferMs)"

definition apartList :: "int \<Rightarrow> Appointment list \<Rightarrow> bool" where
  "apartList bufferMs xs =
     eachPair (\<lambda>x y. \<not> (a_barberId x = a_barberId y \<and> a_status x = BOOKED \<and>
                         a_status y = BOOKED \<and> withinBuffer bufferMs x y)) xs"

definition bookedApart :: "int \<Rightarrow> Store \<Rightarrow> bool" where
  "bookedApart bufferMs store = apartList bufferMs (appointments store)"

text \<open>The store states that the operations produce from a store without appointments,
  under one booking configuration. The last rule stands for every edit that leaves the
  appointment table alone (seeding, shop administration).\<close>

inductive reachable :: "BookingConfig \<Rightarrow> Store \<Rightarrow> bool" for cfg :: BookingConfig where
  r_init: "appointments s = [] \<Longrightarrow> reachable cfg s"
| r_create: "reachable cfg s \<Longrightarrow> reachable cfg (snd (createAppointment s inp cfg now newId))"
| r_cancelRoute: "reachable cfg s \<Longrightarrow> reachable cfg (fst (snd (cancelRoute gw s i r now)))"
| r_cancel: "reachable cfg s \<Longrightarrow> reachable cfg (snd (cancelAppointment s cinp cfg' now))"
| r_markNoShow: "reachable cfg s \<Longrightarrow> reachable cfg (snd (markNoShow s i now))"
| r_complete: "reachable cfg s \<Longrightarrow> reachable cfg (snd (completeAppointment s i))"
| r_detectAndMark: "reachable cfg s \<Longrightarrow> reachable cfg (snd (detectAndMarkNoShows s g now))"
| r_detect: "reachable cfg s \<Longrightarrow> reachable cfg (snd (detectNoShows s now))"
| r_pay: "reachable cfg s \<Longrightarrow>
          reachable cfg (snd (createPaymentIntentForAppointment out s i user newId))"
| r_succeeded: "reachable cfg s \<Longrightarrow> reachable cfg (paymentIntentSucceeded s intent)"
| r_failed: "reachable cfg s \<Longrightarrow> reachable cfg (paymentIntentFailed s intent)"
| r_cleanup: "reachable cfg s \<Longrightarrow> reachable cfg (cleanupStaleBookings s now)"
| r_reset: "reachable cfg s \<Longrightarrow> reachable cfg (snd (resetNoShowCount s c))"
| r_other: "reachable cfg s \<Longrightarrow> appointments s' = appointments s \<Longrightarrow> reachable cfg s'"

text \<open>The count that the no-show policy reads for a customer.\<close>

definition noShowCountOf :: "Store \<Rightarrow> string \<Rightarrow> int" where
  "noShowCountOf store customerId =
     (case getCustomerNoShowCount store customerId of
        Success r \<Rightarrow> nc_count r
      | Failure _ \<Rightarrow> 0)"

text \<open>The selection criterion of the no-show sweep.\<close>

definition sweepSelects :: "Date \<Rightarrow> Appointment \<Rightarrow> bool" where
  "sweepSelects now a =
     (a_status a = CONFIRMED \<and> a_startTime a + GRACE_PERIOD_MINUTES * MS_PER_MINUTE < now)"

text \<open>The checks of \<open>createAppointment\<close> other than the no-show block: a start in
  the future, an active barber, an existing service and customer, a start and end inside
  the barber's availability, and no BOOKED appointment within the buffer.\<close>

definition passesOtherChecks ::
  "Store \<Rightarrow> CreateAppointmentInput \<Rightarrow> BookingConfig \<Rightarrow> Date \<Rightarrow> bool" where
  "passesOtherChecks store input mergedConfig now =
     (ci_startTime input > now \<and>
      (case find (\<lambda>b. b_id b = ci_barberId input) (barbers store) of
         None \<Rightarrow> False
       | Some barber \<Rightarrow>
           b_active barber \<and>
           (case find (\<lambda>sv. s_id sv = ci_serviceId input) (services store) of
              None \<Rightarrow> False
            | Some service \<Rightarrow>
                find (\<lambda>u. u_id u = ci_customerId input) (users store) \<noteq> None \<and>
                available
                  (checkBarberAvailability
                     (filter (\<lambda>a. av_barberId a = b_id barber) (availabilities store))
                     (ci_startTime input)
                     (addMinutes (ci_startTime input) (s_durationMinutes service))) \<and>
                confirmedOverlaps store (ci_barberId input) (ci_startTime input)
                  (addMinutes (ci_startTime input) (s_durationMinutes service))
                  (bufferMinutes mergedConfig * 60 * 1000) = [])))"

section \<open>Scenarios\<close>

text \<open>A shop on Monday 2025-01-06 (1736121600000 ms): barber1 works Mondays 09:00 to
  17:00 and offers the 30-minute service svc1; svc2 belongs to barber2 of another shop.\<close>

definition monday :: Date where
  "monday = 1736121600000"

definition clock :: "int \<Rightarrow> int \<Rightarrow> Date" where
  "clock h m = monday + h * MS_PER_HOUR + m * MS_PER_MINUTE"

definition saturdayBefore :: Date where
  "saturdayBefore = monday - 2 * MS_PER_DAY"

definition shopStore :: Store where
  "shopStore =
     \<lparr>barbers = [\<lparr>b_id = ''barber1'', b_active = True, b_shopId = ''shop1''\<rparr>,
                 \<lparr>b_id = ''barber2'', b_active = True, b_shopId = ''shop2''\<rparr>],
      availabilities =
        [\<lparr>av_barberId = ''barber1'', av_dayOfWeek = 1, av_startTime = ''09:00'',
          av_endTime = ''17:00'', av_isException = False, av_date = None\<rparr>],
      services =
        [\<lparr>s_id = ''svc1'', s_durationMinutes = 30, s_priceCents = 2500, s_shopId = ''shop1'',
          s_barberId = None\<rparr>,
         \<lparr>s_id = ''svc2'', s_durationMinutes = 30, s_priceCents = 2500, s_shopId = ''shop2'',
          s_barberId = Some ''barber2''\<rparr>],
      users = [\<lparr>u_id = ''cust1'', u_role = CUSTOMER\<rparr>, \<lparr>u_id = ''cust2'', u_role = CUSTOMER\<rparr>],
      appointments = [], payments = [], noShowFlags = []\<rparr>"

text \<open>A 30-minute appointment of barber1 for svc1, and the request that books one.\<close>

definition halfHour :: "string \<Rightarrow> string \<Rightarrow> Date \<Rightarrow> AppointmentStatus \<Rightarrow> Appointment" where
  "halfHour i customer start st =
     \<lparr>a_id = i, a_barberId = ''barber1'', a_customerId = customer, a_serviceId = ''svc1'',
      a_startTime = start, a_endTime = start + 30 * MS_PER_MINUTE, a_status = st,
      a_cancellationReason = None, a_createdAt = saturdayBefore\<rparr>"

definition request :: "string \<Rightarrow> string \<Rightarrow> Date \<Rightarrow> CreateAppointmentInput" where
  "request customer service start =
     \<lparr>ci_barberId = ''barber1'', ci_customerId = customer, ci_serviceId = service,
      ci_startTime = start\<rparr>"

definition bookedStore :: Store where
  "bookedStore = shopStore\<lparr>appointments := [halfHour ''a1'' ''cust1'' (clock 10 0) BOOKED]\<rparr>"

definition confirmedStore :: Store where
  "confirmedStore = shopStore\<lparr>appointments := [halfHour ''a1'' ''cust1'' (clock 10 0) CONFIRMED]\<rparr>"

definition mondayInput :: AvailableSlotsInput where
  "mondayInput = \<lparr>in_barberId = ''barber1'', in_startDate = monday, in_endDate = clock 23 0,
                   in_serviceDurationMinutes = Some 30\<rparr>"

definition slotAt :: "int \<Rightarrow> TimeSlot" where
  "slotAt m = \<lparr>ts_startTime = monday + m * MS_PER_MINUTE,
               ts_endTime = monday + (m + 30) * MS_PER_MINUTE\<rparr>"

text \<open>The bookable slots that the listing returns for that Monday, asked on the Saturday
  before, with 15-minute steps and the default configuration (buffer 10 minutes).\<close>

definition mondaySlots :: "TimeSlot list" where
  "mondaySlots =
     (case getBookableSlots bookedStore mondayInput 15 DEFAULT_BOOKING_CONFIG saturdayBefore of
        Some (Success days) \<Rightarrow> concat (map da_slots days)
      | _ \<Rightarrow> [])"

text \<open>Two bookings made one after the other on the empty shop: 10:00 and 10:40.\<close>

definition onceBooked :: Store where
  "onceBooked =
     snd (createAppointment shopStore (request ''cust1'' ''svc1'' (clock 10 0))
            DEFAULT_BOOKING_CONFIG saturdayBefore ''a1'')"

definition twiceBooked :: Store where
  "twiceBooked =
     snd (createAppointment onceBooked (request ''cust2'' ''svc1'' (clock 10 40))
            DEFAULT_BOOKING_CONFIG saturdayBefore ''a2'')"

text \<open>The CONFIRMED appointment a1 with its paid deposit.\<close>

definition deposit :: Payment where
  "deposit = \<lparr>p_id = ''p1'', p_stripePaymentIntentId = ''pi_1'', p_amountCents = 500,
              p_status = PAID, p_customerId = ''cust1'', p_appointmentId = Some ''a1''\<rparr>"

definition paidStore :: Store where
  "paidStore = confirmedStore\<lparr>payments := [deposit]\<rparr>"

text \<open>The shop with Monday 2025-01-06 marked as a day off by an exception without a time
  range, and a request for the slots from that Monday to the Monday after.\<close>

definition dayOff :: Availability where
  "dayOff = \<lparr>av_barberId = ''barber1'', av_dayOfWeek = 1, av_startTime = [], av_endTime = [],
             av_isException = True, av_date = Some monday\<rparr>"

definition dayOffStore :: Store where
  "dayOffStore = shopStore\<lparr>availabilities := availabilities shopStore @ [dayOff]\<rparr>"

definition twoMondays :: AvailableSlotsInput where
  "twoMondays = \<lparr>in_barberId = ''barber1'', in_startDate = monday,
                  in_endDate = monday + 7 * MS_PER_DAY + 23 * MS_PER_HOUR,
                  in_serviceDurationMinutes = Some 30\<rparr>"

text \<open>The shop with an exception for Monday 2025-01-06 that has hours, 12:00 to 14:00,
  and the bookable starts of that Monday under it.\<close>

definition lunchHours :: Availability where
  "lunchHours = \<lparr>av_barberId = ''barber1'', av_dayOfWeek = 1, av_startTime = ''12:00'',
                 av_endTime = ''14:00'', av_isException = True, av_date = Some monday\<rparr>"

definition lunchStore :: Store where
  "lunchStore = shopStore\<lparr>availabilities := availabilities shopStore @ [lunchHours]\<rparr>"

definition lunchStarts :: "DailyAvailability list" where
  "lunchStarts =
     [\<lparr>da_date = monday, da_slots = map slotAt [720, 735, 750, 765, 780, 795, 810]\<rparr>]"

text \<open>Sunday to Tuesday around the Monday with the BOOKED appointment.\<close>

definition threeDays :: AvailableSlotsInput where
  "threeDays = \<lparr>in_barberId = ''barber1'', in_startDate = monday - MS_PER_DAY,
                 in_endDate = monday + MS_PER_DAY + 23 * MS_PER_HOUR,
                 in_serviceDurationMinutes = Some 30\<rparr>"

definition mondayWindows :: "DailyAvailability list" where
  "mondayWindows =
     [\<lparr>da_date = monday,
       da_slots = [\<lparr>ts_startTime = clock 9 0, ts_endTime = clock 9 50\<rparr>,
                   \<lparr>ts_startTime = clock 10 40, ts_endTime = clock 17 0\<rparr>]\<rparr>]"

definition mondayStarts :: "DailyAvailability list" where
  "mondayStarts =
     [\<lparr>da_date = monday,
       da_slots = map slotAt
         [540, 555, 645, 660, 675, 690, 705, 720, 735, 750, 765, 780, 795, 810,
          825, 840, 855, 870, 885, 900, 915, 930, 945, 960, 975, 990]\<rparr>]"

definition nextMondayStarts :: "DailyAvailability list" where
  "nextMondayStarts =
     [\<lparr>da_date = monday + 7 * MS_PER_DAY,
       da_slots = map (\<lambda>k. slotAt (10620 + 15 * int k)) [0..<31]\<rparr>]"

text \<open>Four appointments on that Monday, seen at 13:00: a1 and a2 are CONFIRMED and
  started more than ten minutes ago, a3 is BOOKED, a4 starts at 16:00.\<close>

definition sweepStore :: Store where
  "sweepStore =
     shopStore\<lparr>appointments :=
       [halfHour ''a1'' ''cust1'' (clock 10 0) CONFIRMED,
        halfHour ''a2'' ''cust1'' (clock 11 0) CONFIRMED,
        halfHour ''a3'' ''cust2'' (clock 12 0) BOOKED,
        halfHour ''a4'' ''cust2'' (clock 16 0) CONFIRMED]\<rparr>"

definition sweptStore :: Store where
  "sweptStore =
     shopStore\<lparr>appointments :=
       [halfHour ''a1'' ''cust1'' (clock 10 0) NO_SHOW,
        halfHour ''a2'' ''cust1'' (clock 11 0) NO_SHOW,
        halfHour ''a3'' ''cust2'' (clock 12 0) BOOKED,
        halfHour ''a4'' ''cust2'' (clock 16 0) CONFIRMED],
       noShowFlags :=
         [\<lparr>f_customerId = ''cust1'', f_count = 2, f_lastFlaggedAt = Some (clock 13 0)\<rparr>]\<rparr>"

definition firstSweep :: NoShowDetectionResult where
  "firstSweep =
     \<lparr>scanned = 2, markedAsNoShow = 2,
      details = [\<lparr>ns_appointmentId = ''a1'', ns_customerId = ''cust1'', ns_noShowCount = 1\<rparr>,
                 \<lparr>ns_appointmentId = ''a2'', ns_customerId = ''cust1'', ns_noShowCount = 2\<rparr>]\<rparr>"

text \<open>The shop with three no-shows recorded for cust1.\<close>

definition blockedStore :: Store where
  "blockedStore =
     shopStore\<lparr>noShowFlags :=
       [\<lparr>f_customerId = ''cust1'', f_count = 3, f_lastFlaggedAt = Some saturdayBefore\<rparr>]\<rparr>"

section \<open>Basic facts about the store\<close>

lemma find_map_same_key:
  assumes "\<And>x. P (g x) = P x"
  shows "find P (map g xs) = map_option g (find P xs)"
  by (induction xs) (auto simp: assms)

lemma find_append_new:
  "find P (xs @ [x]) = (case find P xs of Some y \<Rightarrow> Some y | None \<Rightarrow> if P x then Some x else None)"
  by (induction xs) auto

lemma updateAppointment_appointments [simp]:
  "appointments (updateAppointment i f s) = map (\<lambda>a. if a_id a = i then f a else a) (appointments s)"
  by (simp add: updateAppointment_def)

lemma updateAppointment_flags [simp]:
  "noShowFlags (updateAppointment i f s) = noShowFlags s"
  by (simp add: updateAppointment_def)

lemma updatePayment_appointments [simp]:
  "appointments (updatePayment i f s) = appointments s"
  by (simp add: updatePayment_def)

lemma upsert_appointments [simp]:
  "appointments (snd (upsertNoShowFlag c now s)) = appointments s"
  by (simp add: upsertNoShowFlag_def Let_def split: option.splits)


section \<open>Staff transitions from CONFIRMED\<close>

text \<open>
  Claim C5. The claim: an appointment in status CONFIRMED can be completed
  (\<open>completeAppointment\<close> moves it to COMPLETED) and, once its start time has come, marked
  as a no-show. The code: both services test \<open>status !== BOOKED\<close> and answer
  \<open>APPOINTMENT_ALREADY_COMPLETED\<close>. For the CONFIRMED appointment a1 (Monday 10:00) both
  calls fail and leave the store as it was.
\<close>

theorem confirmed_appointment_rejected:
  "completeAppointment confirmedStore ''a1''
     = (Failure APPOINTMENT_ALREADY_COMPLETED, confirmedStore) \<and>
   markNoShow confirmedStore ''a1'' (clock 11 0)
     = (Failure APPOINTMENT_ALREADY_COMPLETED, confirmedStore)"
  by (simp add: completeAppointment_def markNoShow_def confirmedStore_def shopStore_def
      halfHour_def)

section \<open>The service of a booking\<close>

text \<open>
  Claim C6. The claim: \<open>createAppointment\<close> rejects a service that is scoped to another
  barber. The code: the service is only looked up by id. Booking barber1 (shop1) with
  svc2, which belongs to barber2 of shop2, succeeds and stores the appointment.
\<close>

theorem foreign_service_accepted:
  "createAppointment shopStore (request ''cust1'' ''svc2'' (clock 10 0))
     DEFAULT_BOOKING_CONFIG saturdayBefore ''new''
   = (Success ((halfHour ''new'' ''cust1'' (clock 10 0) BOOKED)\<lparr>a_serviceId := ''svc2''\<rparr>),
      shopStore\<lparr>appointments :=
        [(halfHour ''new'' ''cust1'' (clock 10 0) BOOKED)\<lparr>a_serviceId := ''svc2''\<rparr>]\<rparr>)"
  by code_simp

text \<open>A service id that is not in the table is refused, once the earlier checks have
  passed, and nothing is stored.\<close>

lemma createAppointment_service_not_found:
  assumes "ci_startTime inp > now"
    and "noShowCountOf store (ci_customerId inp) < 3"
    and "find (\<lambda>b. b_id b = ci_barberId inp) (barbers store) = Some barber"
    and "b_active barber"
    and "find (\<lambda>sv. s_id sv = ci_serviceId inp) (services store) = None"
  shows "createAppointment store inp cfg now newId = (Failure SERVICE_NOT_FOUND, store)"
  using assms
  by (simp add: createAppointment_def isCustomerBlocked_def noShowCountOf_def Let_def
      split: ServiceResult.splits)

section \<open>Cancelling at the start time\<close>

text \<open>
  Claim C7. The claim: a cancellation with \<open>now >= startTime\<close> is rejected with
  \<open>CANCELLATION_WINDOW_PASSED\<close>, also when \<open>now\<close> is exactly the start time. The code:
  the route tests \<open>isAfter(now, startTime)\<close>, which is strict. Cancelling the BOOKED
  appointment a1 (Monday 10:00) at 10:00 exactly succeeds and the appointment becomes
  CANCELLED.
\<close>

theorem cancel_at_start_time_accepted:
  "cancelRoute (\<lambda>_. True) bookedStore ''a1'' None (clock 10 0)
   = (RouteOk (Some (halfHour ''a1'' ''cust1'' (clock 10 0) CANCELLED, None)),
      shopStore\<lparr>appointments := [halfHour ''a1'' ''cust1'' (clock 10 0) CANCELLED]\<rparr>,
      [DbCommit])"
  by (simp add: cancelRoute_def hydrate_def bookedStore_def shopStore_def halfHour_def
      isAfter_def updateAppointment_def)

text \<open>After the start time, and in a terminal state, the route refuses and leaves the
  store unchanged.\<close>

lemma cancelRoute_rejections:
  assumes "hydrate store i = Some (a, pay)"
  shows "(a_status a \<in> {CANCELLED, COMPLETED, NO_SHOW} \<longrightarrow>
            cancelRoute gw store i r now
              = (RouteError 400 ''INVALID_APPOINTMENT_STATE'', store, [])) \<and>
         (a_status a \<in> {BOOKED, CONFIRMED} \<and> now > a_startTime a \<longrightarrow>
            cancelRoute gw store i r now
              = (RouteError 400 ''CANCELLATION_WINDOW_PASSED'', store, []))"
  using assms by (auto simp: cancelRoute_def isAfter_def)

text \<open>The service function \<open>cancelAppointment\<close> compares with \<open>startTime <= now\<close> and
  rejects the same request.\<close>

lemma cancelAppointment_at_start_time:
  "cancelAppointment bookedStore \<lparr>cn_appointmentId = ''a1'', cn_reason = None\<rparr>
     DEFAULT_BOOKING_CONFIG (clock 10 0)
   = (Failure CANNOT_CANCEL_PAST_APPOINTMENT, bookedStore)"
  by (simp add: cancelAppointment_def bookedStore_def shopStore_def halfHour_def)

section \<open>The Monday scenario\<close>

text \<open>
  Claim C8, as stated: with the BOOKED appointment 10:00 to 10:30, buffer 10, step 15 and
  a 30-minute service, the bookable starts of that Monday include 09:30. They do not: a
  slot starting at 09:30 would end at 10:00, inside the buffered range that starts at 09:50.
\<close>

theorem monday_0930_not_bookable:
  "clock 9 15 \<in> set (map ts_startTime mondaySlots) \<and>
   clock 9 30 \<notin> set (map ts_startTime mondaySlots)"
  by code_simp

text \<open>
  Claim C8, amended: the bookable starts of that Monday are exactly 09:00 and 09:15, then
  10:45, 11:00 and so on every 15 minutes up to 16:30 (minutes 540, 555 and 645 to 990
  after midnight); every candidate start after 09:20 and before 10:40 is excluded.
\<close>

theorem monday_bookable_slots:
  "getBookableSlots bookedStore mondayInput 15 DEFAULT_BOOKING_CONFIG saturdayBefore =
     Some (Success [\<lparr>da_date = monday,
                     da_slots = map slotAt
                       [540, 555, 645, 660, 675, 690, 705, 720, 735, 750, 765, 780, 795, 810,
                        825, 840, 855, 870, 885, 900, 915, 930, 945, 960, 975, 990]\<rparr>])"
  by code_simp

section \<open>The slot listing returns\<close>

text \<open>With a positive interval the loop of \<open>generateDiscreteSlots\<close> ends for every
  window, so \<open>getBookableSlots\<close> returns.\<close>

lemma slotLoop_returns:
  "0 < k \<Longrightarrow> \<exists>r. slotLoop w d k (Some s) acc = Some r"
proof (induction "nat (ts_endTime w - addMinutes s d + 1)" arbitrary: s acc rule: less_induct)
  case less
  show ?case
  proof (cases "addMinutes s d > ts_endTime w")
    case True
    then show ?thesis by (subst slotLoop.simps) (simp add: Let_def)
  next
    case False
    with less.prems
    have "nat (ts_endTime w - addMinutes (addMinutes s k) d + 1)
            < nat (ts_endTime w - addMinutes s d + 1)"
      by (simp add: addMinutes_def)
    from less.hyps [OF this less.prems]
    obtain r where
      "slotLoop w d k (Some (addMinutes s k))
         (acc @ [\<lparr>ts_startTime = s, ts_endTime = addMinutes s d\<rparr>]) = Some r"
      by blast
    with False show ?thesis by (subst slotLoop.simps) (simp add: Let_def)
  qed
qed

lemma roundUpToInterval_valid:
  "k \<noteq> 0 \<Longrightarrow> \<exists>s. roundUpToInterval date k = Some s"
  by (simp add: roundUpToInterval_def Let_def)

lemma generateDiscreteSlotsFrom_returns:
  "0 < k \<Longrightarrow> \<exists>r. generateDiscreteSlotsFrom ws d k acc = Some r"
proof (induction ws arbitrary: acc)
  case Nil
  then show ?case by simp
next
  case (Cons w ws)
  from Cons.prems obtain s where s: "roundUpToInterval (ts_startTime w) k = Some s"
    using roundUpToInterval_valid [of k "ts_startTime w"] by auto
  from slotLoop_returns [OF Cons.prems] obtain r where "slotLoop w d k (Some s) acc = Some r"
    by blast
  with s Cons.IH [OF Cons.prems] show ?case by simp
qed

lemma mapDays_returns:
  "0 < k \<Longrightarrow> \<exists>r. mapDays days d k = Some r"
proof (induction days)
  case Nil
  then show ?case by simp
next
  case (Cons day days)
  from generateDiscreteSlotsFrom_returns [OF Cons.prems]
  obtain sl where "generateDiscreteSlots (da_slots day) d k = Some sl"
    unfolding generateDiscreteSlots_def by blast
  with Cons.IH [OF Cons.prems] show ?case by auto
qed

lemma getBookableSlots_returns:
  "0 < k \<Longrightarrow> \<exists>res. getBookableSlots store input k cfg now = Some res"
proof (cases "getAvailableSlots store input cfg now")
  case (Success days)
  assume "0 < k"
  from mapDays_returns [OF this]
  obtain r where "mapDays days (case in_serviceDurationMinutes input of Some d \<Rightarrow> d
                          | None \<Rightarrow> defaultSlotDurationMinutes DEFAULT_BOOKING_CONFIG) k = Some r"
    by blast
  with Success show ?thesis by (simp add: getBookableSlots_def Let_def)
next
  case (Failure e)
  then show ?thesis by (simp add: getBookableSlots_def)
qed

section \<open>Days without slots are not listed\<close>

lemma dayLoop_entry:
  "d \<in> set (dayLoop c e av ap dur buf now) \<Longrightarrow>
   da_slots d = calculateDaySlotsForDate (da_date d) av ap dur buf now \<and> da_slots d \<noteq> []"
proof (induction c e av ap dur buf now rule: dayLoop.induct)
  case (1 c e av ap dur buf now)
  show ?case
  proof (cases "c \<le> e")
    case True
    from "1.prems" True
    have "d \<in> set (if calculateDaySlotsForDate c av ap dur buf now \<noteq> []
                    then [\<lparr>da_date = c, da_slots = calculateDaySlotsForDate c av ap dur buf now\<rparr>]
                    else [])
          \<or> d \<in> set (dayLoop (c + MS_PER_DAY) e av ap dur buf now)"
      by (subst (asm) dayLoop.simps) (simp add: Let_def)
    then show ?thesis
    proof
      assume "d \<in> set (if calculateDaySlotsForDate c av ap dur buf now \<noteq> []
                    then [\<lparr>da_date = c, da_slots = calculateDaySlotsForDate c av ap dur buf now\<rparr>]
                    else [])"
      then show ?thesis by (auto split: if_splits)
    next
      assume "d \<in> set (dayLoop (c + MS_PER_DAY) e av ap dur buf now)"
      with "1.IH" True show ?thesis by blast
    qed
  next
    case False
    with "1.prems" show ?thesis by (subst (asm) dayLoop.simps) simp
  qed
qed


lemma getAvailableSlots_nonempty:
  "getAvailableSlots store input cfg now = Success days \<Longrightarrow> d \<in> set days \<Longrightarrow> da_slots d \<noteq> []"
  by (auto simp: getAvailableSlots_def Let_def split: if_splits option.splits dest!: dayLoop_entry)

lemma getBookableSlots_nonempty:
  "getBookableSlots store input k cfg now = Some (Success days) \<Longrightarrow> d \<in> set days \<Longrightarrow>
   da_slots d \<noteq> []"
  by (auto simp: getBookableSlots_def Let_def split: ServiceResult.splits option.splits)

text \<open>
  Claim C10. Every entry of the per-day list that a successful \<open>getAvailableSlots\<close> or
  \<open>getBookableSlots\<close> returns has at least one slot: a date of the range without a free
  window, or whose windows give no discrete slot, has no entry. (\<open>getBookableSlots\<close>
  returns whenever the slot interval is positive.)
\<close>

theorem listed_days_have_slots:
  "(getAvailableSlots store input cfg now = Success days \<longrightarrow>
      (\<forall>d\<in>set days. da_slots d \<noteq> [])) \<and>
   (0 < k \<longrightarrow> (\<exists>res. getBookableSlots store input k cfg now = Some res)) \<and>
   (getBookableSlots store input k cfg now = Some (Success days') \<longrightarrow>
      (\<forall>d\<in>set days'. da_slots d \<noteq> []))"
  using getAvailableSlots_nonempty getBookableSlots_nonempty getBookableSlots_returns
  by blast

text \<open>From Sunday to Tuesday only the Monday, the one day with free windows, is listed.\<close>

theorem listed_days_have_slots_witness:
  "getAvailableSlots bookedStore threeDays DEFAULT_BOOKING_CONFIG saturdayBefore
     = Success mondayWindows \<and>
   list_all (\<lambda>d. da_slots d \<noteq> []) mondayWindows \<and>
   getBookableSlots bookedStore threeDays 15 DEFAULT_BOOKING_CONFIG saturdayBefore
     = Some (Success mondayStarts) \<and>
   list_all (\<lambda>d. da_slots d \<noteq> []) mondayStarts"
proof -
  have a: "getAvailableSlots bookedStore threeDays DEFAULT_BOOKING_CONFIG saturdayBefore
             = Success mondayWindows"
    by code_simp
  have b: "getBookableSlots bookedStore threeDays 15 DEFAULT_BOOKING_CONFIG saturdayBefore
             = Some (Success mondayStarts)"
    by code_simp
  from a b
    listed_days_have_slots [of bookedStore threeDays DEFAULT_BOOKING_CONFIG saturdayBefore
      mondayWindows 15 mondayStarts]
  show ?thesis unfolding list_all_iff by blast
qed

section \<open>The no-show sweep\<close>

lemma sweepEach_appointments:
  "appointments (snd (sweepEach s xs now)) =
     map (\<lambda>a. if a_id a \<in> a_id ` set xs then a\<lparr>a_status := NO_SHOW\<rparr> else a) (appointments s)"
proof (induction xs arbitrary: s)
  case Nil
  then show ?case by simp
next
  case (Cons x xs)
  have "appointments (snd (sweepEach s (x # xs) now)) =
        appointments (snd (sweepEach (snd (upsertNoShowFlag (a_customerId x) now
            (updateAppointment (a_id x) (\<lambda>a. a\<lparr>a_status := NO_SHOW\<rparr>) s))) xs now))"
    by (simp add: Let_def split: prod.splits)
  also have "\<dots> = map (\<lambda>a. if a_id a \<in> a_id ` set xs then a\<lparr>a_status := NO_SHOW\<rparr> else a)
                      (map (\<lambda>a. if a_id a = a_id x then a\<lparr>a_status := NO_SHOW\<rparr> else a) (appointments s))"
    by (simp add: Cons.IH)
  also have "\<dots> = map (\<lambda>a. if a_id a \<in> a_id ` set (x # xs) then a\<lparr>a_status := NO_SHOW\<rparr> else a) (appointments s)"
    by auto
  finally show ?case .
qed

lemma sweepEach_length: "length (fst (sweepEach s xs now)) = length xs"
proof (induction xs arbitrary: s)
  case Nil
  then show ?case by simp
next
  case (Cons x xs)
  have "length (fst (sweepEach s (x # xs) now)) =
        Suc (length (fst (sweepEach (snd (upsertNoShowFlag (a_customerId x) now
            (updateAppointment (a_id x) (\<lambda>a. a\<lparr>a_status := NO_SHOW\<rparr>) s))) xs now)))"
    by (simp add: Let_def split: prod.splits)
  then show ?case by (simp add: Cons.IH)
qed

lemma eligible_alt:
  "eligibleAppointments s now = sort_key a_startTime (filter (sweepSelects now) (appointments s))"
proof -
  have "(\<lambda>a. a_status a = CONFIRMED \<and> a_startTime a < now - GRACE_PERIOD_MINUTES * 60 * 1000)
        = sweepSelects now"
    by (auto simp: sweepSelects_def GRACE_PERIOD_MINUTES_def MS_PER_MINUTE_def)
  then show ?thesis
    unfolding eligibleAppointments_def Let_def by simp
qed

lemma set_eligible:
  "set (eligibleAppointments s now) = {a \<in> set (appointments s). sweepSelects now a}"
  by (auto simp: eligible_alt)

lemma length_eligible:
  "length (eligibleAppointments s now) = length (filter (sweepSelects now) (appointments s))"
  by (simp add: eligible_alt)

lemma eligible_after_sweep:
  "eligibleAppointments (snd (sweepEach s (eligibleAppointments s now) now)) now = []"
proof -
  have "filter (sweepSelects now) (appointments (snd (sweepEach s (eligibleAppointments s now) now))) = []"
    unfolding sweepEach_appointments filter_empty_conv
    by (auto simp: set_eligible sweepSelects_def)
  then show ?thesis by (simp add: eligible_alt)
qed

lemma noShowCountOf_upsert:
  "noShowCountOf (snd (upsertNoShowFlag k now s)) c = noShowCountOf s c + (if c = k then 1 else 0)"
proof (cases "find (\<lambda>f. f_customerId f = k) (noShowFlags s)")
  case None
  then show ?thesis
    by (auto simp: noShowCountOf_def getCustomerNoShowCount_def upsertNoShowFlag_def Let_def find_append_new
        split: option.splits)
next
  case (Some e)
  have "noShowFlags (snd (upsertNoShowFlag k now s)) =
        map (\<lambda>f. if f_customerId f = k then f\<lparr>f_count := f_count f + 1, f_lastFlaggedAt := Some now\<rparr> else f) (noShowFlags s)"
    using Some by (simp add: upsertNoShowFlag_def Let_def)
  then show ?thesis
    using Some
    by (auto simp: noShowCountOf_def getCustomerNoShowCount_def find_map_same_key split: option.splits dest: find_Some_iff[THEN iffD1])
qed

lemma noShowCountOf_updateAppointment [simp]:
  "noShowCountOf (updateAppointment i f s) c = noShowCountOf s c"
  by (simp add: noShowCountOf_def getCustomerNoShowCount_def)

lemma sweepEach_count:
  "noShowCountOf (snd (sweepEach s xs now)) c
   = noShowCountOf s c + int (length (filter (\<lambda>a. a_customerId a = c) xs))"
proof (induction xs arbitrary: s)
  case Nil
  then show ?case by simp
next
  case (Cons x xs)
  have "snd (sweepEach s (x # xs) now) =
        snd (sweepEach (snd (upsertNoShowFlag (a_customerId x) now
            (updateAppointment (a_id x) (\<lambda>a. a\<lparr>a_status := NO_SHOW\<rparr>) s))) xs now)"
    by (simp add: Let_def split: prod.splits)
  then show ?case
    by (simp add: Cons.IH noShowCountOf_upsert)
qed

lemma eligible_by_customer:
  "length (filter (\<lambda>a. a_customerId a = c) (eligibleAppointments s now))
   = length (filter (\<lambda>a. sweepSelects now a \<and> a_customerId a = c) (appointments s))"
  by (simp add: eligible_alt filter_sort conj_commute)

text \<open>
  Claim C4. The sweep selects exactly the appointments that are CONFIRMED and started
  more than \<open>GRACE_PERIOD_MINUTES\<close> ago; it counts them all as marked, each of them is
  NO_SHOW afterwards, and each adds one to the count of its customer. A second sweep at
  the same time selects and marks nothing and leaves the store, with every no-show
  count, as the first sweep left it.
\<close>

theorem sweep_idempotent:
  assumes first: "detectNoShows s now = (r1, s1)"
    and second: "detectNoShows s1 now = (r2, s2)"
  shows "set (eligibleAppointments s now) = {a \<in> set (appointments s). sweepSelects now a} \<and>
         scanned r1 = length (filter (sweepSelects now) (appointments s)) \<and>
         markedAsNoShow r1 = scanned r1 \<and>
         (\<forall>a\<in>set (appointments s).
            sweepSelects now a \<longrightarrow> a\<lparr>a_status := NO_SHOW\<rparr> \<in> set (appointments s1)) \<and>
         (\<forall>c. noShowCountOf s1 c = noShowCountOf s c
                + int (length (filter (\<lambda>a. sweepSelects now a \<and> a_customerId a = c)
                                      (appointments s)))) \<and>
         scanned r2 = 0 \<and> markedAsNoShow r2 = 0 \<and> s2 = s1"
proof -
  from first have s1: "s1 = snd (sweepEach s (eligibleAppointments s now) now)"
    and r1: "r1 = \<lparr>scanned = length (eligibleAppointments s now),
                   markedAsNoShow = length (fst (sweepEach s (eligibleAppointments s now) now)),
                   details = fst (sweepEach s (eligibleAppointments s now) now)\<rparr>"
    by (auto simp: detectNoShows_def Let_def split: prod.splits)
  have sel: "set (eligibleAppointments s now) = {a \<in> set (appointments s). sweepSelects now a}"
    by (rule set_eligible)
  have sc: "scanned r1 = length (filter (sweepSelects now) (appointments s))"
    by (simp add: r1 length_eligible)
  have mk: "markedAsNoShow r1 = scanned r1"
    by (simp add: r1 sweepEach_length)
  have ns: "\<forall>a\<in>set (appointments s).
              sweepSelects now a \<longrightarrow> a\<lparr>a_status := NO_SHOW\<rparr> \<in> set (appointments s1)"
    unfolding s1 sweepEach_appointments set_eligible by force
  have cn: "\<forall>c. noShowCountOf s1 c = noShowCountOf s c
                + int (length (filter (\<lambda>a. sweepSelects now a \<and> a_customerId a = c)
                                      (appointments s)))"
    by (simp add: s1 sweepEach_count eligible_by_customer)
  have none: "eligibleAppointments s1 now = []"
    unfolding s1 by (rule eligible_after_sweep)
  with second have again: "scanned r2 = 0 \<and> markedAsNoShow r2 = 0 \<and> s2 = s1"
    by (auto simp: detectNoShows_def Let_def)
  from sel sc mk ns cn again show ?thesis by blast
qed

text \<open>At 13:00 the first sweep marks a1 and a2 and brings cust1 to two no-shows; the
  second marks nothing.\<close>

theorem sweep_idempotent_witness:
  "detectNoShows sweepStore (clock 13 0) = (firstSweep, sweptStore) \<and>
   detectNoShows sweptStore (clock 13 0)
     = (\<lparr>scanned = 0, markedAsNoShow = 0, details = []\<rparr>, sweptStore) \<and>
   markedAsNoShow firstSweep = 2 \<and>
   noShowCountOf sweptStore ''cust1'' = noShowCountOf sweepStore ''cust1'' + 2"
proof -
  have a: "detectNoShows sweepStore (clock 13 0) = (firstSweep, sweptStore)"
    by code_simp
  have b: "detectNoShows sweptStore (clock 13 0)
             = (\<lparr>scanned = 0, markedAsNoShow = 0, details = []\<rparr>, sweptStore)"
    by code_simp
  have c: "int (length (filter (\<lambda>a. sweepSelects (clock 13 0) a \<and> a_customerId a = ''cust1'')
                               (appointments sweepStore))) = 2"
    by code_simp
  from sweep_idempotent [OF a b] c
  have "noShowCountOf sweptStore ''cust1'' = noShowCountOf sweepStore ''cust1'' + 2"
    by auto
  with a b show ?thesis by (simp add: firstSweep_def)
qed

section \<open>Refund before commit\<close>

lemma hydrate_Some:
  "hydrate store i = Some (a, pay) \<longleftrightarrow>
     find (\<lambda>a. a_id a = i) (appointments store) = Some a \<and>
     pay = find (\<lambda>p. p_appointmentId p = Some i) (payments store)"
  by (auto simp: hydrate_def split: option.splits)

lemma full_hours:
  "REFUND_CUTOFF_HOURS * MS_PER_HOUR \<le> d \<Longrightarrow> REFUND_CUTOFF_HOURS \<le> differenceInHours d' (d' - d)"
  by (simp add: differenceInHours_def REFUND_CUTOFF_HOURS_def MS_PER_HOUR_def Let_def)

lemma hydrate_after_cancel:
  assumes "find (\<lambda>a. a_id a = i) (appointments store) = Some a"
    and "find (\<lambda>p. p_appointmentId p = Some i) (payments store) = Some p"
  shows "hydrate (updatePayment (p_id p) (\<lambda>q. q\<lparr>p_status := st\<rparr>)
                   (updateAppointment i (\<lambda>a. a\<lparr>a_status := CANCELLED, a_cancellationReason := cr\<rparr>) store)) i
         = Some (a\<lparr>a_status := CANCELLED, a_cancellationReason := cr\<rparr>, Some (p\<lparr>p_status := st\<rparr>))"
proof -
  have "find (\<lambda>a. a_id a = i)
          (map (\<lambda>a. if a_id a = i then a\<lparr>a_status := CANCELLED, a_cancellationReason := cr\<rparr> else a)
               (appointments store))
        = Some (a\<lparr>a_status := CANCELLED, a_cancellationReason := cr\<rparr>)"
    using assms(1) by (subst find_map_same_key) (auto dest: find_Some_iff[THEN iffD1])
  moreover have "find (\<lambda>q. p_appointmentId q = Some i)
          (map (\<lambda>q. if p_id q = p_id p then q\<lparr>p_status := st\<rparr> else q) (payments store))
        = Some (p\<lparr>p_status := st\<rparr>)"
    using assms(2) by (subst find_map_same_key) auto
  ultimately show ?thesis
    by (simp add: hydrate_def updatePayment_def updateAppointment_def)
qed

text \<open>
  Claim C2. For an appointment with a PAID payment, cancelled at least
  \<open>REFUND_CUTOFF_HOURS\<close> before its start: the handler calls the gateway before it
  commits. If the refund call fails, the reply is \<open>STRIPE_ERROR\<close>, the store is unchanged
  and nothing is committed; if it succeeds, the commit follows the refund call, the
  appointment is CANCELLED and the payment REFUNDED. (An appointment already in a terminal
  state is refused before any refund call.)
\<close>

theorem refund_before_commit:
  assumes found: "hydrate store i = Some (a, Some p)"
    and paid: "p_status p = PAID"
    and early: "REFUND_CUTOFF_HOURS * MS_PER_HOUR \<le> a_startTime a - now"
  shows "(a_status a \<in> {CANCELLED, COMPLETED, NO_SHOW} \<longrightarrow>
            cancelRoute gateway store i r now
              = (RouteError 400 ''INVALID_APPOINTMENT_STATE'', store, [])) \<and>
         (a_status a \<in> {BOOKED, CONFIRMED} \<and> \<not> gateway (p_stripePaymentIntentId p) \<longrightarrow>
            cancelRoute gateway store i r now
              = (RouteError 500 ''STRIPE_ERROR'', store, [RefundCall (p_stripePaymentIntentId p)])) \<and>
         (a_status a \<in> {BOOKED, CONFIRMED} \<and> gateway (p_stripePaymentIntentId p) \<longrightarrow>
            (\<exists>store' a' p'.
               cancelRoute gateway store i r now
                 = (RouteOk (Some (a', Some p')), store',
                    [RefundCall (p_stripePaymentIntentId p), DbCommit]) \<and>
               hydrate store' i = Some (a', Some p') \<and>
               a_status a' = CANCELLED \<and> p_status p' = REFUNDED))"
proof -
  from found have fa: "find (\<lambda>a. a_id a = i) (appointments store) = Some a"
    and fp: "find (\<lambda>p. p_appointmentId p = Some i) (payments store) = Some p"
    by (simp_all add: hydrate_Some)
  from early have notAfter: "\<not> isAfter now (a_startTime a)"
    by (simp add: isAfter_def REFUND_CUTOFF_HOURS_def MS_PER_HOUR_def)
  from early have hours: "REFUND_CUTOFF_HOURS \<le> differenceInHours (a_startTime a) now"
    using full_hours [of "a_startTime a - now" "a_startTime a"] by simp
  have terminal: "a_status a \<in> {CANCELLED, COMPLETED, NO_SHOW} \<longrightarrow>
            cancelRoute gateway store i r now
              = (RouteError 400 ''INVALID_APPOINTMENT_STATE'', store, [])"
    using found by (auto simp: cancelRoute_def)
  have failing: "a_status a \<in> {BOOKED, CONFIRMED} \<and> \<not> gateway (p_stripePaymentIntentId p) \<longrightarrow>
            cancelRoute gateway store i r now
              = (RouteError 500 ''STRIPE_ERROR'', store, [RefundCall (p_stripePaymentIntentId p)])"
    using found paid notAfter hours by (auto simp: cancelRoute_def Let_def)
  have succeeding: "a_status a \<in> {BOOKED, CONFIRMED} \<and> gateway (p_stripePaymentIntentId p) \<longrightarrow>
            (\<exists>store' a' p'.
               cancelRoute gateway store i r now
                 = (RouteOk (Some (a', Some p')), store',
                    [RefundCall (p_stripePaymentIntentId p), DbCommit]) \<and>
               hydrate store' i = Some (a', Some p') \<and>
               a_status a' = CANCELLED \<and> p_status p' = REFUNDED)"
    using found paid notAfter hours hydrate_after_cancel [OF fa fp]
    by (auto simp: cancelRoute_def Let_def)
  from terminal failing succeeding show ?thesis by blast
qed

text \<open>Cancelling the confirmed and paid appointment a1 two days ahead, with a gateway
  that refuses the refund.\<close>

theorem refund_before_commit_witness:
  "hydrate paidStore ''a1'' = Some (halfHour ''a1'' ''cust1'' (clock 10 0) CONFIRMED, Some deposit) \<and>
   p_status deposit = PAID \<and>
   REFUND_CUTOFF_HOURS * MS_PER_HOUR
     \<le> a_startTime (halfHour ''a1'' ''cust1'' (clock 10 0) CONFIRMED) - saturdayBefore \<and>
   cancelRoute (\<lambda>_. False) paidStore ''a1'' None saturdayBefore
     = (RouteError 500 ''STRIPE_ERROR'', paidStore, [RefundCall ''pi_1''])"
proof -
  have h: "hydrate paidStore ''a1''
             = Some (halfHour ''a1'' ''cust1'' (clock 10 0) CONFIRMED, Some deposit)"
    by code_simp
  have p: "p_status deposit = PAID"
    by (simp add: deposit_def)
  have e: "REFUND_CUTOFF_HOURS * MS_PER_HOUR
             \<le> a_startTime (halfHour ''a1'' ''cust1'' (clock 10 0) CONFIRMED) - saturdayBefore"
    by code_simp
  from refund_before_commit [OF h p e, of "\<lambda>_. False" None]
  have "cancelRoute (\<lambda>_. False) paidStore ''a1'' None saturdayBefore
          = (RouteError 500 ''STRIPE_ERROR'', paidStore, [RefundCall ''pi_1''])"
    by (simp add: halfHour_def deposit_def)
  with h p e show ?thesis by blast
qed

text \<open>The same cancellation with a gateway that grants the refund.\<close>

lemma refund_granted:
  "cancelRoute (\<lambda>_. True) paidStore ''a1'' None saturdayBefore
   = (RouteOk (Some (halfHour ''a1'' ''cust1'' (clock 10 0) CANCELLED,
                     Some (deposit\<lparr>p_status := REFUNDED\<rparr>))),
      shopStore\<lparr>appointments := [halfHour ''a1'' ''cust1'' (clock 10 0) CANCELLED],
                payments := [deposit\<lparr>p_status := REFUNDED\<rparr>]\<rparr>,
      [RefundCall ''pi_1'', DbCommit])"
  by code_simp

section \<open>Exceptions replace the recurring rules\<close>

lemma exceptionsForDate_idem [simp]:
  "exceptionsForDate (exceptionsForDate av D) D = exceptionsForDate av D"
  by (simp add: exceptionsForDate_def)

lemma weeklyForDay_idem [simp]:
  "weeklyForDay (weeklyForDay av w) w = weeklyForDay av w"
  by (simp add: weeklyForDay_def)

lemma exceptions_of_weekly [simp]:
  "exceptionsForDate (weeklyForDay av w) D = []"
  by (simp add: exceptionsForDate_def weeklyForDay_def)

lemma calc_only_exceptions:
  "exceptionsForDate av (startOfDay date) \<noteq> [] \<Longrightarrow>
   calculateDaySlotsForDate date av ap dur buf now
   = calculateDaySlotsForDate date (exceptionsForDate av (startOfDay date)) ap dur buf now"
  by (simp add: calculateDaySlotsForDate_def Let_def)

lemma check_only_exceptions:
  "exceptionsForDate av (startOfDay rs) \<noteq> [] \<Longrightarrow>
   checkBarberAvailability av rs re
   = checkBarberAvailability (exceptionsForDate av (startOfDay rs)) rs re"
  by (simp add: checkBarberAvailability_def Let_def)

lemma calc_only_weekly:
  "exceptionsForDate av (startOfDay date) = [] \<Longrightarrow>
   calculateDaySlotsForDate date av ap dur buf now
   = calculateDaySlotsForDate date (weeklyForDay av (getDayOfWeek date)) ap dur buf now"
  by (simp add: calculateDaySlotsForDate_def Let_def)

lemma check_only_weekly:
  "exceptionsForDate av (startOfDay rs) = [] \<Longrightarrow>
   checkBarberAvailability av rs re
   = checkBarberAvailability (weeklyForDay av (getDayOfWeek rs)) rs re"
  by (simp add: checkBarberAvailability_def Let_def)

lemma calc_day_off:
  "exceptionsForDate av (startOfDay date) \<noteq> [] \<Longrightarrow>
   \<not> hasValidTimeSlots (exceptionsForDate av (startOfDay date)) \<Longrightarrow>
   calculateDaySlotsForDate date av ap dur buf now = []"
  by (simp add: calculateDaySlotsForDate_def Let_def)

lemma check_day_off:
  "exceptionsForDate av (startOfDay rs) \<noteq> [] \<Longrightarrow>
   \<not> hasValidTimeSlots (exceptionsForDate av (startOfDay rs)) \<Longrightarrow>
   checkBarberAvailability av rs re = \<lparr>available = False, reason = DayOff\<rparr>"
  by (simp add: checkBarberAvailability_def Let_def)

lemma mapDays_dates:
  "mapDays days dur k = Some days' \<Longrightarrow> map da_date days' = map da_date days"
  by (induction days arbitrary: days') (auto split: option.splits)

lemma getBookableSlots_dates:
  assumes "getBookableSlots store input k cfg now = Some (Success days')"
    and "d' \<in> set days'"
  shows "\<exists>days d. getAvailableSlots store input cfg now = Success days \<and> d \<in> set days \<and>
                  da_date d = da_date d'"
proof -
  from assms(1) obtain days bookable where
    a: "getAvailableSlots store input cfg now = Success days"
    and m: "mapDays days (case in_serviceDurationMinutes input of Some d \<Rightarrow> d
                          | None \<Rightarrow> defaultSlotDurationMinutes DEFAULT_BOOKING_CONFIG) k = Some bookable"
    and f: "days' = filter (\<lambda>day. da_slots day \<noteq> []) bookable"
    by (auto simp: getBookableSlots_def Let_def split: ServiceResult.splits option.splits)
  from assms(2) f have "da_date d' \<in> set (map da_date bookable)" by auto
  with mapDays_dates [OF m] have "da_date d' \<in> set (map da_date days)" by simp
  with a show ?thesis by auto
qed

lemma getAvailableSlots_entry:
  assumes "getAvailableSlots store input cfg now = Success days" and "d \<in> set days"
  shows "\<exists>ap dur. da_slots d =
           calculateDaySlotsForDate (da_date d)
             (filter (\<lambda>a. av_barberId a = in_barberId input) (availabilities store))
             ap dur (bufferMinutes cfg) now \<and> da_slots d \<noteq> []"
proof -
  from assms obtain barber where
    b: "find (\<lambda>b. b_id b = in_barberId input) (barbers store) = Some barber"
    by (auto simp: getAvailableSlots_def Let_def split: if_splits option.splits)
  then have "b_id barber = in_barberId input"
    by (auto simp: find_Some_iff)
  with assms b show ?thesis
    by (auto simp: getAvailableSlots_def Let_def split: if_splits dest!: dayLoop_entry)
qed

lemma combineDateAndTime_truthy:
  "combineDateAndTime d s = Some x \<Longrightarrow> truthy s"
  by (cases s) (simp_all add: combineDateAndTime_def parseTimeString_def Number_def truthy_def)

lemma no_valid_no_window:
  assumes "\<not> hasValidTimeSlots rules" and "rule \<in> set rules"
  shows "combineDateAndTime d (av_startTime rule) = None \<or>
         combineDateAndTime d (av_endTime rule) = None"
proof (rule ccontr)
  assume "\<not> ?thesis"
  then obtain ws we where "combineDateAndTime d (av_startTime rule) = Some ws"
    and "combineDateAndTime d (av_endTime rule) = Some we" by auto
  then have "truthy (av_startTime rule) \<and> truthy (av_endTime rule)"
    by (auto dest: combineDateAndTime_truthy)
  with assms show False by (auto simp: hasValidTimeSlots_def list_ex_iff)
qed

lemma subtract_nothing [simp]: "subtractBlockedRanges w [] = [w]"
  by (simp add: subtractBlockedRanges_def)

lemma ruleFreeSlots_unblocked:
  "ruleFreeSlots date rule [] now =
     (case (combineDateAndTime date (av_startTime rule),
            combineDateAndTime date (av_endTime rule)) of
        (Some ws, Some we) \<Rightarrow>
          if we \<le> now then []
          else [\<lparr>ts_startTime = (if ws < now then now else ws), ts_endTime = we\<rparr>]
      | _ \<Rightarrow> [])"
  by (simp add: ruleFreeSlots_def Let_def split: option.splits)

lemma ruleFreeSlots_invalid:
  "combineDateAndTime date (av_startTime rule) = None \<or>
   combineDateAndTime date (av_endTime rule) = None \<Longrightarrow> ruleFreeSlots date rule bl now = []"
  by (auto simp: ruleFreeSlots_def split: option.splits)

lemma calc_exception_windows:
  assumes ex: "exceptionsForDate av (startOfDay date) \<noteq> []"
    and free: "filter (\<lambda>apt. startOfDay date \<le> a_startTime apt \<and> a_startTime apt \<le> endOfDay date)
                 appts = []"
  shows "calculateDaySlotsForDate date av appts dur buf now =
         filter (\<lambda>slot. ts_endTime slot - ts_startTime slot \<ge> dur * (60 * 1000))
           (concat (map (\<lambda>rule. ruleFreeSlots date rule [] now)
                        (exceptionsForDate av (startOfDay date))))"
proof (cases "hasValidTimeSlots (exceptionsForDate av (startOfDay date))")
  case True
  with ex free show ?thesis
    by (simp add: calculateDaySlotsForDate_def Let_def)
next
  case False
  then have "\<forall>rule\<in>set (exceptionsForDate av (startOfDay date)). ruleFreeSlots date rule [] now = []"
    using no_valid_no_window [OF False] by (blast intro: ruleFreeSlots_invalid)
  then have "concat (map (\<lambda>rule. ruleFreeSlots date rule [] now)
                        (exceptionsForDate av (startOfDay date))) = []"
    by simp
  with ex False show ?thesis
    by (simp add: calculateDaySlotsForDate_def Let_def)
qed

lemma check_exception_windows:
  assumes ex: "exceptionsForDate av (startOfDay rs) \<noteq> []"
  shows "available (checkBarberAvailability av rs re) =
         (\<exists>rule\<in>set (exceptionsForDate av (startOfDay rs)). \<exists>ws we.
            combineDateAndTime (startOfDay rs) (av_startTime rule) = Some ws \<and>
            combineDateAndTime (startOfDay rs) (av_endTime rule) = Some we \<and>
            ws \<le> rs \<and> re \<le> we)"
proof -
  have fits: "fitsRule (startOfDay rs) rule rs re =
         (\<exists>ws we. combineDateAndTime (startOfDay rs) (av_startTime rule) = Some ws \<and>
            combineDateAndTime (startOfDay rs) (av_endTime rule) = Some we \<and>
            ws \<le> rs \<and> re \<le> we)" for rule
    by (auto simp: fitsRule_def split: option.splits)
  show ?thesis
  proof (cases "hasValidTimeSlots (exceptionsForDate av (startOfDay rs))")
    case True
    with ex show ?thesis
      by (simp add: checkBarberAvailability_def Let_def list_ex_iff fits)
  next
    case False
    from no_valid_no_window [OF False, of _ "startOfDay rs"]
    have "\<not> (\<exists>rule\<in>set (exceptionsForDate av (startOfDay rs)). \<exists>ws we.
            combineDateAndTime (startOfDay rs) (av_startTime rule) = Some ws \<and>
            combineDateAndTime (startOfDay rs) (av_endTime rule) = Some we \<and>
            ws \<le> rs \<and> re \<le> we)"
      by fastforce
    with ex False show ?thesis
      by (simp add: checkBarberAvailability_def Let_def)
  qed
qed

text \<open>
  Claim C3. If the barber has an exception rule for a date, the slot computation and the
  availability check of a booking give what they give on the exception rules of that date
  alone, whatever the recurring rules are. The check accepts a request exactly when it
  lies inside the hours of one of these exceptions; on a day without appointments the
  free windows are exactly the hours of these exceptions, from \<open>now\<close> on and long
  enough for the service. If none of the exceptions has both a start and an end time, the
  date is a day off: no free window, no booking, and (the slot interval being positive,
  so that the listing returns) no entry for that date in the list of bookable slots. A
  date \<open>other\<close> without exception is computed from the recurring rules of its day of the
  week alone.
\<close>

theorem exception_replaces_recurring:
  assumes ex: "exceptionsForDate availability (startOfDay date) \<noteq> []"
  shows "calculateDaySlotsForDate date availability appts dur buf now
           = calculateDaySlotsForDate date (exceptionsForDate availability (startOfDay date))
               appts dur buf now \<and>
         checkBarberAvailability availability date requestedEnd
           = checkBarberAvailability (exceptionsForDate availability (startOfDay date))
               date requestedEnd \<and>
         available (checkBarberAvailability availability date requestedEnd)
           = (\<exists>rule\<in>set (exceptionsForDate availability (startOfDay date)). \<exists>ws we.
                combineDateAndTime (startOfDay date) (av_startTime rule) = Some ws \<and>
                combineDateAndTime (startOfDay date) (av_endTime rule) = Some we \<and>
                ws \<le> date \<and> requestedEnd \<le> we) \<and>
         (filter (\<lambda>apt. startOfDay date \<le> a_startTime apt \<and> a_startTime apt \<le> endOfDay date)
                 appts = [] \<longrightarrow>
            calculateDaySlotsForDate date availability appts dur buf now
              = filter (\<lambda>slot. ts_endTime slot - ts_startTime slot \<ge> dur * (60 * 1000))
                  (concat
                     (map (\<lambda>rule.
                             case (combineDateAndTime date (av_startTime rule),
                                   combineDateAndTime date (av_endTime rule)) of
                               (Some ws, Some we) \<Rightarrow>
                                 if we \<le> now then []
                                 else [\<lparr>ts_startTime = (if ws < now then now else ws),
                                        ts_endTime = we\<rparr>]
                             | _ \<Rightarrow> [])
                          (exceptionsForDate availability (startOfDay date))))) \<and>
         (\<not> hasValidTimeSlots (exceptionsForDate availability (startOfDay date)) \<longrightarrow>
            calculateDaySlotsForDate date availability appts dur buf now = [] \<and>
            \<not> available (checkBarberAvailability availability date requestedEnd) \<and>
            (availability = filter (\<lambda>a. av_barberId a = in_barberId input) (availabilities store) \<longrightarrow>
             0 < k \<longrightarrow>
             (\<exists>res. getBookableSlots store input k cfg now = Some res \<and>
                (\<forall>days. res = Success days \<longrightarrow>
                   (\<forall>d\<in>set days. startOfDay (da_date d) \<noteq> startOfDay date))))) \<and>
         (exceptionsForDate availability (startOfDay other) = [] \<longrightarrow>
            calculateDaySlotsForDate other availability appts dur buf now
              = calculateDaySlotsForDate other (weeklyForDay availability (getDayOfWeek other))
                  appts dur buf now \<and>
            checkBarberAvailability availability other requestedEnd
              = checkBarberAvailability (weeklyForDay availability (getDayOfWeek other))
                  other requestedEnd)"
proof -
  have entries: "\<forall>d\<in>set days. startOfDay (da_date d) \<noteq> startOfDay date"
    if off: "\<not> hasValidTimeSlots (exceptionsForDate availability (startOfDay date))"
      and av: "availability = filter (\<lambda>a. av_barberId a = in_barberId input) (availabilities store)"
      and res: "getBookableSlots store input k cfg now = Some (Success days)"
    for days
  proof
    fix d assume "d \<in> set days"
    from getBookableSlots_dates [OF res this] obtain ws w where
      a: "getAvailableSlots store input cfg now = Success ws" and w: "w \<in> set ws"
      and dd: "da_date w = da_date d" by blast
    from getAvailableSlots_entry [OF a w] av obtain ap du where
      sl: "da_slots w = calculateDaySlotsForDate (da_date w) availability ap du (bufferMinutes cfg) now"
      and ne: "da_slots w \<noteq> []" by auto
    show "startOfDay (da_date d) \<noteq> startOfDay date"
    proof
      assume same: "startOfDay (da_date d) = startOfDay date"
      with ex off dd have "calculateDaySlotsForDate (da_date w) availability ap du (bufferMinutes cfg) now = []"
        by (intro calc_day_off) simp_all
      with sl ne show False by simp
    qed
  qed
  have listing: "\<exists>res. getBookableSlots store input k cfg now = Some res \<and>
                (\<forall>days. res = Success days \<longrightarrow>
                   (\<forall>d\<in>set days. startOfDay (da_date d) \<noteq> startOfDay date))"
    if off: "\<not> hasValidTimeSlots (exceptionsForDate availability (startOfDay date))"
      and av: "availability = filter (\<lambda>a. av_barberId a = in_barberId input) (availabilities store)"
      and k: "0 < k"
  proof -
    from getBookableSlots_returns [OF k]
    obtain res where r: "getBookableSlots store input k cfg now = Some res" by blast
    with entries [OF off av] show ?thesis by blast
  qed
  have c1: "calculateDaySlotsForDate date availability appts dur buf now
           = calculateDaySlotsForDate date (exceptionsForDate availability (startOfDay date))
               appts dur buf now"
    by (rule calc_only_exceptions [OF ex])
  have c2: "checkBarberAvailability availability date requestedEnd
           = checkBarberAvailability (exceptionsForDate availability (startOfDay date))
               date requestedEnd"
    by (rule check_only_exceptions [OF ex])
  have c3: "available (checkBarberAvailability availability date requestedEnd)
           = (\<exists>rule\<in>set (exceptionsForDate availability (startOfDay date)). \<exists>ws we.
                combineDateAndTime (startOfDay date) (av_startTime rule) = Some ws \<and>
                combineDateAndTime (startOfDay date) (av_endTime rule) = Some we \<and>
                ws \<le> date \<and> requestedEnd \<le> we)"
    by (rule check_exception_windows [OF ex])
  have c4: "filter (\<lambda>apt. startOfDay date \<le> a_startTime apt \<and> a_startTime apt \<le> endOfDay date)
                 appts = [] \<longrightarrow>
            calculateDaySlotsForDate date availability appts dur buf now
              = filter (\<lambda>slot. ts_endTime slot - ts_startTime slot \<ge> dur * (60 * 1000))
                  (concat
                     (map (\<lambda>rule.
                             case (combineDateAndTime date (av_startTime rule),
                                   combineDateAndTime date (av_endTime rule)) of
                               (Some ws, Some we) \<Rightarrow>
                                 if we \<le> now then []
                                 else [\<lparr>ts_startTime = (if ws < now then now else ws),
                                        ts_endTime = we\<rparr>]
                             | _ \<Rightarrow> [])
                          (exceptionsForDate availability (startOfDay date))))"
    using calc_exception_windows [OF ex, of appts dur buf now]
    by (simp only: ruleFreeSlots_unblocked) blast
  have c5: "\<not> hasValidTimeSlots (exceptionsForDate availability (startOfDay date)) \<longrightarrow>
            calculateDaySlotsForDate date availability appts dur buf now = [] \<and>
            \<not> available (checkBarberAvailability availability date requestedEnd) \<and>
            (availability = filter (\<lambda>a. av_barberId a = in_barberId input) (availabilities store) \<longrightarrow>
             0 < k \<longrightarrow>
             (\<exists>res. getBookableSlots store input k cfg now = Some res \<and>
                (\<forall>days. res = Success days \<longrightarrow>
                   (\<forall>d\<in>set days. startOfDay (da_date d) \<noteq> startOfDay date))))"
    using calc_day_off [OF ex] check_day_off [OF ex, of requestedEnd] listing
    by (simp (no_asm_simp)) (metis AvailabilityCheckResult.select_convs(1))
  have c6: "exceptionsForDate availability (startOfDay other) = [] \<longrightarrow>
            calculateDaySlotsForDate other availability appts dur buf now
              = calculateDaySlotsForDate other (weeklyForDay availability (getDayOfWeek other))
                  appts dur buf now \<and>
            checkBarberAvailability availability other requestedEnd
              = checkBarberAvailability (weeklyForDay availability (getDayOfWeek other))
                  other requestedEnd"
    using calc_only_weekly [of availability other] check_only_weekly [of availability other requestedEnd]
    by blast
  from c1 c2 c3 c4 c5 c6 show ?thesis by (intro conjI)
qed

text \<open>The day off on Monday 2025-01-06: from that Monday to the next, only the next has
  slots, 09:00 to 16:30. With the exception 12:00 to 14:00 instead, the free window of that
  Monday is 12:00 to 14:00 although the recurring rule says 09:00 to 17:00: the bookable
  starts are 12:00 to 13:30, a booking at 12:30 is made and one at 10:00 is refused.\<close>

theorem exception_replaces_recurring_witness:
  "exceptionsForDate
     (filter (\<lambda>a. av_barberId a = in_barberId twoMondays) (availabilities dayOffStore))
     (startOfDay monday) \<noteq> [] \<and>
   \<not> hasValidTimeSlots
       (exceptionsForDate
          (filter (\<lambda>a. av_barberId a = in_barberId twoMondays) (availabilities dayOffStore))
          (startOfDay monday)) \<and>
   getBookableSlots dayOffStore twoMondays 15 DEFAULT_BOOKING_CONFIG saturdayBefore
     = Some (Success nextMondayStarts) \<and>
   list_all (\<lambda>d. startOfDay (da_date d) \<noteq> startOfDay monday) nextMondayStarts \<and>
   \<not> available
       (checkBarberAvailability
          (filter (\<lambda>a. av_barberId a = in_barberId twoMondays) (availabilities dayOffStore))
          monday (clock 9 30)) \<and>
   exceptionsForDate (availabilities lunchStore) (startOfDay (clock 12 30)) = [lunchHours] \<and>
   calculateDaySlotsForDate (clock 12 30) (availabilities lunchStore) [] 30 10 saturdayBefore
     = [\<lparr>ts_startTime = clock 12 0, ts_endTime = clock 14 0\<rparr>] \<and>
   available (checkBarberAvailability (availabilities lunchStore) (clock 12 30) (clock 13 0)) \<and>
   \<not> available (checkBarberAvailability (availabilities lunchStore) (clock 10 0) (clock 10 30)) \<and>
   getBookableSlots lunchStore mondayInput 15 DEFAULT_BOOKING_CONFIG saturdayBefore
     = Some (Success lunchStarts) \<and>
   fst (createAppointment lunchStore (request ''cust1'' ''svc1'' (clock 12 30))
          DEFAULT_BOOKING_CONFIG saturdayBefore ''new'')
     = Success (halfHour ''new'' ''cust1'' (clock 12 30) BOOKED) \<and>
   createAppointment lunchStore (request ''cust1'' ''svc1'' (clock 10 0))
          DEFAULT_BOOKING_CONFIG saturdayBefore ''new''
     = (Failure BARBER_UNAVAILABLE, lunchStore)"
proof -
  have e: "exceptionsForDate
             (filter (\<lambda>a. av_barberId a = in_barberId twoMondays) (availabilities dayOffStore))
             (startOfDay monday) \<noteq> []"
    by code_simp
  have v: "\<not> hasValidTimeSlots
             (exceptionsForDate
                (filter (\<lambda>a. av_barberId a = in_barberId twoMondays)
                        (availabilities dayOffStore))
                (startOfDay monday))"
    by code_simp
  have g: "getBookableSlots dayOffStore twoMondays 15 DEFAULT_BOOKING_CONFIG saturdayBefore
             = Some (Success nextMondayStarts)"
    by code_simp
  from exception_replaces_recurring
         [where date = monday and requestedEnd = "clock 9 30" and input = twoMondays
            and store = dayOffStore and k = 15 and cfg = DEFAULT_BOOKING_CONFIG
            and now = saturdayBefore and appts = "[]"
            and dur = 30 and buf = 10 and other = "monday + 7 * MS_PER_DAY", OF e] e v g
  have closed: "list_all (\<lambda>d. startOfDay (da_date d) \<noteq> startOfDay monday) nextMondayStarts \<and>
     \<not> available
       (checkBarberAvailability
          (filter (\<lambda>a. av_barberId a = in_barberId twoMondays) (availabilities dayOffStore))
          monday (clock 9 30))"
    unfolding list_all_iff by auto
  have l: "exceptionsForDate (availabilities lunchStore) (startOfDay (clock 12 30)) = [lunchHours]"
    by code_simp
  then have ne: "exceptionsForDate (availabilities lunchStore) (startOfDay (clock 12 30)) \<noteq> []"
    by simp
  have only: "calculateDaySlotsForDate (clock 12 30) [lunchHours] [] 30 10 saturdayBefore
                = [\<lparr>ts_startTime = clock 12 0, ts_endTime = clock 14 0\<rparr>]"
    by code_simp
  have inside: "available (checkBarberAvailability [lunchHours] (clock 12 30) (clock 13 0))"
    by code_simp
  from exception_replaces_recurring
         [where date = "clock 12 30" and availability = "availabilities lunchStore"
            and requestedEnd = "clock 13 0" and appts = "[]" and dur = 30 and buf = 10
            and now = saturdayBefore, OF ne] l only inside
  have w: "calculateDaySlotsForDate (clock 12 30) (availabilities lunchStore) [] 30 10
             saturdayBefore = [\<lparr>ts_startTime = clock 12 0, ts_endTime = clock 14 0\<rparr>] \<and>
           available (checkBarberAvailability (availabilities lunchStore) (clock 12 30)
                        (clock 13 0))"
    by simp
  have outside: "\<not> available (checkBarberAvailability (availabilities lunchStore) (clock 10 0)
                                (clock 10 30))"
    by code_simp
  have gl: "getBookableSlots lunchStore mondayInput 15 DEFAULT_BOOKING_CONFIG saturdayBefore
              = Some (Success lunchStarts)"
    by code_simp
  have b1: "fst (createAppointment lunchStore (request ''cust1'' ''svc1'' (clock 12 30))
               DEFAULT_BOOKING_CONFIG saturdayBefore ''new'')
            = Success (halfHour ''new'' ''cust1'' (clock 12 30) BOOKED)"
    by code_simp
  have b2: "createAppointment lunchStore (request ''cust1'' ''svc1'' (clock 10 0))
               DEFAULT_BOOKING_CONFIG saturdayBefore ''new''
            = (Failure BARBER_UNAVAILABLE, lunchStore)"
    by code_simp
  from e v g closed l w outside gl b1 b2 show ?thesis by (intro conjI) simp_all
qed

section \<open>Blocking after no-shows\<close>

lemma isCustomerBlocked_eq:
  "isCustomerBlocked store c m
   = Success \<lparr>blocked = (noShowCountOf store c \<ge> m), noShowCount = noShowCountOf store c\<rparr>"
  by (simp add: isCustomerBlocked_def noShowCountOf_def getCustomerNoShowCount_def
      split: option.splits)

lemma noShowCountOf_no_record:
  "find (\<lambda>f. f_customerId f = c) (noShowFlags store) = None \<Longrightarrow> noShowCountOf store c = 0"
  by (simp add: noShowCountOf_def getCustomerNoShowCount_def)

lemma createAppointment_blocked:
  "noShowCountOf store (ci_customerId inp) \<ge> 3 \<Longrightarrow> ci_startTime inp > now \<Longrightarrow>
   createAppointment store inp cfg now newId = (Failure CUSTOMER_BLOCKED, store)"
  by (simp add: createAppointment_def isCustomerBlocked_eq Let_def)

lemma noShowCountOf_reset:
  "noShowCountOf (snd (resetNoShowCount store c)) c = 0"
proof (cases "find (\<lambda>f. f_customerId f = c) (noShowFlags store)")
  case None
  then show ?thesis
    by (simp add: resetNoShowCount_def noShowCountOf_def getCustomerNoShowCount_def)
next
  case (Some e)
  have "find (\<lambda>f. f_customerId f = c)
          (map (\<lambda>f. if f_customerId f = c then f\<lparr>f_count := 0, f_lastFlaggedAt := None\<rparr> else f)
               (noShowFlags store))
        = Some (e\<lparr>f_count := 0, f_lastFlaggedAt := None\<rparr>)"
    using Some by (subst find_map_same_key) (auto dest: find_Some_iff[THEN iffD1])
  with Some show ?thesis
    by (simp add: resetNoShowCount_def noShowCountOf_def getCustomerNoShowCount_def)
qed

lemma reset_tables:
  "barbers (snd (resetNoShowCount store c)) = barbers store"
  "availabilities (snd (resetNoShowCount store c)) = availabilities store"
  "services (snd (resetNoShowCount store c)) = services store"
  "users (snd (resetNoShowCount store c)) = users store"
  "appointments (snd (resetNoShowCount store c)) = appointments store"
  by (simp_all add: resetNoShowCount_def split: option.splits)

lemma passesOtherChecks_reset:
  "passesOtherChecks (snd (resetNoShowCount store c)) inp cfg now = passesOtherChecks store inp cfg now"
  by (simp add: passesOtherChecks_def confirmedOverlaps_def reset_tables cong: option.case_cong)

lemma createAppointment_unblocked:
  assumes "noShowCountOf store (ci_customerId inp) < 3"
    and "passesOtherChecks store inp cfg now"
  shows "\<exists>appointment.
           createAppointment store inp cfg now newId
             = (Success appointment, store\<lparr>appointments := appointments store @ [appointment]\<rparr>) \<and>
           a_status appointment = BOOKED \<and> a_customerId appointment = ci_customerId inp \<and>
           a_startTime appointment = ci_startTime inp"
  using assms
  by (auto simp: createAppointment_def passesOtherChecks_def isCustomerBlocked_eq Let_def
      split: option.splits)

text \<open>
  Claim C9, as stated: a customer with three no-shows gets \<open>CUSTOMER_BLOCKED\<close> whatever
  the requested slot. The check of the start time comes first: for a start that is not in
  the future the blocked cust1 gets \<open>BOOKING_IN_PAST\<close>.
\<close>

theorem blocked_customer_past_start:
  "noShowCountOf blockedStore ''cust1'' = 3 \<and>
   createAppointment blockedStore (request ''cust1'' ''svc1'' (clock 10 0))
     DEFAULT_BOOKING_CONFIG (clock 11 0) ''new''
   = (Failure BOOKING_IN_PAST, blockedStore)"
  by code_simp

text \<open>
  Claim C9, amended. \<open>isCustomerBlocked\<close> is the test \<open>count >= maxNoShows\<close> on the
  customer's count, which is 0 without a record. A customer whose count is at least 3
  gets \<open>CUSTOMER_BLOCKED\<close> for every request whose start is in the future, whatever else
  holds of the request, and nothing is stored. After \<open>resetNoShowCount\<close> the count is 0
  and a request that passes the other checks is booked.
\<close>

theorem blocked_until_reset:
  "isCustomerBlocked store c m
     = Success \<lparr>blocked = (noShowCountOf store c \<ge> m), noShowCount = noShowCountOf store c\<rparr> \<and>
   (find (\<lambda>f. f_customerId f = c) (noShowFlags store) = None \<longrightarrow> noShowCountOf store c = 0) \<and>
   (noShowCountOf store (ci_customerId inp) \<ge> 3 \<and> ci_startTime inp > now \<longrightarrow>
      createAppointment store inp cfg now newId = (Failure CUSTOMER_BLOCKED, store)) \<and>
   noShowCountOf (snd (resetNoShowCount store (ci_customerId inp))) (ci_customerId inp) = 0 \<and>
   (passesOtherChecks store inp cfg now \<longrightarrow>
      (\<exists>appointment.
         createAppointment (snd (resetNoShowCount store (ci_customerId inp))) inp cfg now newId
           = (Success appointment,
              (snd (resetNoShowCount store (ci_customerId inp)))
                \<lparr>appointments := appointments store @ [appointment]\<rparr>) \<and>
         a_status appointment = BOOKED \<and> a_customerId appointment = ci_customerId inp \<and>
         a_startTime appointment = ci_startTime inp))"
proof -
  have "passesOtherChecks store inp cfg now \<longrightarrow>
      (\<exists>appointment.
         createAppointment (snd (resetNoShowCount store (ci_customerId inp))) inp cfg now newId
           = (Success appointment,
              (snd (resetNoShowCount store (ci_customerId inp)))
                \<lparr>appointments := appointments store @ [appointment]\<rparr>) \<and>
         a_status appointment = BOOKED \<and> a_customerId appointment = ci_customerId inp \<and>
         a_startTime appointment = ci_startTime inp)"
    using createAppointment_unblocked [of "snd (resetNoShowCount store (ci_customerId inp))" inp cfg now newId]
    by (simp add: noShowCountOf_reset passesOtherChecks_reset reset_tables)
  then show ?thesis
    using isCustomerBlocked_eq noShowCountOf_no_record createAppointment_blocked noShowCountOf_reset
    by blast
qed

text \<open>cust1, blocked with three no-shows, asks on Saturday for Monday 10:00.\<close>

theorem blocked_until_reset_witness:
  "noShowCountOf blockedStore ''cust1'' \<ge> 3 \<and>
   ci_startTime (request ''cust1'' ''svc1'' (clock 10 0)) > saturdayBefore \<and>
   passesOtherChecks blockedStore (request ''cust1'' ''svc1'' (clock 10 0))
     DEFAULT_BOOKING_CONFIG saturdayBefore \<and>
   createAppointment blockedStore (request ''cust1'' ''svc1'' (clock 10 0))
     DEFAULT_BOOKING_CONFIG saturdayBefore ''new''
     = (Failure CUSTOMER_BLOCKED, blockedStore) \<and>
   fst (createAppointment (snd (resetNoShowCount blockedStore ''cust1''))
          (request ''cust1'' ''svc1'' (clock 10 0)) DEFAULT_BOOKING_CONFIG saturdayBefore ''new'')
     = Success (halfHour ''new'' ''cust1'' (clock 10 0) BOOKED)"
proof -
  have n: "noShowCountOf blockedStore ''cust1'' \<ge> 3"
    by code_simp
  have t: "ci_startTime (request ''cust1'' ''svc1'' (clock 10 0)) > saturdayBefore"
    by code_simp
  have v: "passesOtherChecks blockedStore (request ''cust1'' ''svc1'' (clock 10 0))
             DEFAULT_BOOKING_CONFIG saturdayBefore"
    by code_simp
  have r: "fst (createAppointment (snd (resetNoShowCount blockedStore ''cust1''))
          (request ''cust1'' ''svc1'' (clock 10 0)) DEFAULT_BOOKING_CONFIG saturdayBefore ''new'')
     = Success (halfHour ''new'' ''cust1'' (clock 10 0) BOOKED)"
    by code_simp
  from n t v r
    blocked_until_reset [of blockedStore "''cust1''" 3 "request ''cust1'' ''svc1'' (clock 10 0)"
      saturdayBefore DEFAULT_BOOKING_CONFIG "''new''"]
  show ?thesis by (simp add: request_def)
qed

section \<open>No double booking\<close>

text \<open>The query before the filter is implied by the filter.\<close>

lemma confirmedOverlaps_eq:
  "confirmedOverlaps store barberId startTime endTime bufferMs =
     filter (\<lambda>apt. a_barberId apt = barberId \<and> a_status apt = BOOKED \<and>
                   doTimeRangesOverlap startTime endTime
                     (a_startTime apt - bufferMs) (a_endTime apt + bufferMs))
            (appointments store)"
  unfolding confirmedOverlaps_def Let_def filter_filter
  by (rule filter_cong) (auto simp: overlapQuery_def doTimeRangesOverlap_def)

lemma bookedApart_alt: "bookedApart b s = apartList b (appointments s)"
  by (simp add: bookedApart_def)

lemma apartList_same: "appointments s' = appointments s \<Longrightarrow> bookedApart b s' = bookedApart b s"
  by (simp add: bookedApart_def)

lemma apartList_update:
  assumes "\<And>a. a_status (g a) \<noteq> BOOKED" and "apartList b xs"
  shows "apartList b (map (\<lambda>a. if a_id a = i then g a else a) xs)"
  using assms(2) unfolding apartList_def eachPair_def sorted_wrt_map
  by (rule sorted_wrt_mono_rel [rotated]) (auto simp: assms(1))

lemma bookedApart_update:
  "(\<And>a. a_status (g a) \<noteq> BOOKED) \<Longrightarrow> bookedApart b s \<Longrightarrow> bookedApart b (updateAppointment i g s)"
  by (simp add: bookedApart_alt apartList_update)

lemma bookedApart_create:
  assumes "bookedApart (bufferMinutes cfg * 60 * 1000) s"
  shows "bookedApart (bufferMinutes cfg * 60 * 1000) (snd (createAppointment s inp cfg now newId))"
proof (cases "\<exists>ap. createAppointment s inp cfg now newId = (Success ap, s\<lparr>appointments := appointments s @ [ap]\<rparr>) \<and>
    a_barberId ap = ci_barberId inp \<and>
    confirmedOverlaps s (ci_barberId inp) (a_startTime ap) (a_endTime ap) (bufferMinutes cfg * 60 * 1000) = []")
  case True
  then obtain ap where c: "createAppointment s inp cfg now newId = (Success ap, s\<lparr>appointments := appointments s @ [ap]\<rparr>)"
    and b: "a_barberId ap = ci_barberId inp"
    and o: "confirmedOverlaps s (ci_barberId inp) (a_startTime ap) (a_endTime ap) (bufferMinutes cfg * 60 * 1000) = []"
    by blast
  from o have "\<forall>x\<in>set (appointments s). \<not> (a_barberId x = a_barberId ap \<and> a_status x = BOOKED \<and> a_status ap = BOOKED \<and>
         withinBuffer (bufferMinutes cfg * 60 * 1000) x ap)"
    unfolding confirmedOverlaps_eq filter_empty_conv
    by (auto simp: b withinBuffer_def doTimeRangesOverlap_def)
  with assms show ?thesis
    by (simp add: c bookedApart_def apartList_def eachPair_def sorted_wrt_append)
next
  case False
  then have "snd (createAppointment s inp cfg now newId) = s"
    by (auto simp: createAppointment_def Let_def split: option.splits if_splits)
  with assms show ?thesis by simp
qed

lemma bookedApart_cancelRoute:
  "bookedApart b s \<Longrightarrow> bookedApart b (fst (snd (cancelRoute gw s i r now)))"
  by (auto simp: cancelRoute_def Let_def bookedApart_alt split: option.splits prod.splits
      intro!: apartList_update)

lemma bookedApart_cancel:
  "bookedApart b s \<Longrightarrow> bookedApart b (snd (cancelAppointment s cinp cfg' now))"
  by (auto simp: cancelAppointment_def Let_def split: option.splits intro!: bookedApart_update)

lemma bookedApart_markNoShow:
  "bookedApart b s \<Longrightarrow> bookedApart b (snd (markNoShow s i now))"
  by (auto simp: markNoShow_def Let_def bookedApart_alt split_beta split: option.splits
      intro!: apartList_update)

lemma bookedApart_complete:
  "bookedApart b s \<Longrightarrow> bookedApart b (snd (completeAppointment s i))"
  by (auto simp: completeAppointment_def split: option.splits intro!: bookedApart_update)

lemma bookedApart_markEach:
  "bookedApart b s \<Longrightarrow> bookedApart b (snd (markEach s xs now))"
proof (induction xs arbitrary: s)
  case Nil
  then show ?case by simp
next
  case (Cons x xs)
  have "snd (markEach s (x # xs) now) = snd (markEach (snd (markNoShow s (a_id x) now)) xs now)"
    by (simp add: Let_def split: prod.splits)
  with Cons show ?case by (simp add: bookedApart_markNoShow)
qed

lemma bookedApart_detectAndMark:
  "bookedApart b s \<Longrightarrow> bookedApart b (snd (detectAndMarkNoShows s g now))"
  by (simp add: detectAndMarkNoShows_def Let_def bookedApart_markEach split: prod.splits)
     (metis bookedApart_markEach snd_conv)

lemma bookedApart_sweepEach:
  "bookedApart b s \<Longrightarrow> bookedApart b (snd (sweepEach s xs now))"
proof (induction xs arbitrary: s)
  case Nil
  then show ?case by simp
next
  case (Cons x xs)
  have "snd (sweepEach s (x # xs) now) =
        snd (sweepEach (snd (upsertNoShowFlag (a_customerId x) now
            (updateAppointment (a_id x) (\<lambda>a. a\<lparr>a_status := NO_SHOW\<rparr>) s))) xs now)"
    by (simp add: Let_def split: prod.splits)
  moreover have "bookedApart b (snd (upsertNoShowFlag (a_customerId x) now
            (updateAppointment (a_id x) (\<lambda>a. a\<lparr>a_status := NO_SHOW\<rparr>) s)))"
    using Cons.prems by (simp add: bookedApart_alt apartList_update)
  ultimately show ?case using Cons.IH by simp
qed

lemma bookedApart_detect:
  "bookedApart b s \<Longrightarrow> bookedApart b (snd (detectNoShows s now))"
  by (simp add: detectNoShows_def Let_def split: prod.splits)
     (metis bookedApart_sweepEach snd_conv)

lemma bookedApart_pay:
  "bookedApart b s \<Longrightarrow> bookedApart b (snd (createPaymentIntentForAppointment out s i user newId))"
  by (auto simp: createPaymentIntentForAppointment_def bookedApart_def
      split: option.splits IntentOutcome.splits)

lemma bookedApart_succeeded:
  "bookedApart b s \<Longrightarrow> bookedApart b (paymentIntentSucceeded s intent)"
  by (auto simp: paymentIntentSucceeded_def Let_def bookedApart_alt split: option.splits
      intro!: apartList_update)

lemma bookedApart_failed:
  "bookedApart b s \<Longrightarrow> bookedApart b (paymentIntentFailed s intent)"
  by (simp add: paymentIntentFailed_def bookedApart_def)

lemma bookedApart_cancelEach:
  "bookedApart b s \<Longrightarrow> bookedApart b (cancelEach s xs)"
proof (induction xs arbitrary: s)
  case Nil
  then show ?case by simp
next
  case (Cons x xs)
  obtain a p where x: "x = (a, p)" by (cases x)
  have "bookedApart b (case p of None \<Rightarrow> updateAppointment (a_id a)
              (\<lambda>a. a\<lparr>a_status := CANCELLED,
                      a_cancellationReason :=
                        Some ''Automatic cancellation: payment not completed within 30 minutes''\<rparr>) s
            | Some p \<Rightarrow> updatePayment (p_id p) (\<lambda>q. q\<lparr>p_status := FAILED\<rparr>) (updateAppointment (a_id a)
              (\<lambda>a. a\<lparr>a_status := CANCELLED,
                      a_cancellationReason :=
                        Some ''Automatic cancellation: payment not completed within 30 minutes''\<rparr>) s))"
    using Cons.prems by (auto simp: bookedApart_alt split: option.splits intro!: apartList_update)
  then show ?case
    using Cons.IH by (simp add: x Let_def)
qed

lemma bookedApart_cleanup:
  "bookedApart b s \<Longrightarrow> bookedApart b (cleanupStaleBookings s now)"
  by (simp add: cleanupStaleBookings_def bookedApart_cancelEach)

lemma bookedApart_reset:
  "bookedApart b s \<Longrightarrow> bookedApart b (snd (resetNoShowCount s c))"
  by (auto simp: resetNoShowCount_def bookedApart_def split: option.splits)

lemma twiceBooked_reachable: "reachable DEFAULT_BOOKING_CONFIG twiceBooked"
  unfolding twiceBooked_def onceBooked_def
  by (intro reachable.r_create reachable.r_init) (simp add: shopStore_def)

lemma twiceBooked_appointments:
  "appointments twiceBooked = [halfHour ''a1'' ''cust1'' (clock 10 0) BOOKED,
                               halfHour ''a2'' ''cust2'' (clock 10 40) BOOKED]"
  by code_simp

text \<open>
  Claim C1, as stated: in every reachable state, no two BOOKED or CONFIRMED appointments
  of one barber have intersecting buffered ranges. Booking 10:00 to 10:30 and then 10:40
  to 11:10 with the default buffer of 10 minutes succeeds twice; the buffered ranges
  [09:50, 10:40) and [10:30, 11:20) intersect.
\<close>

theorem buffered_ranges_of_two_bookings_intersect:
  "reachable DEFAULT_BOOKING_CONFIG twiceBooked \<and>
   appointments twiceBooked = [halfHour ''a1'' ''cust1'' (clock 10 0) BOOKED,
                               halfHour ''a2'' ''cust2'' (clock 10 40) BOOKED] \<and>
   \<not> noBufferedIntersection (bufferMinutes DEFAULT_BOOKING_CONFIG * 60 * 1000) twiceBooked"
proof -
  have "\<not> noBufferedIntersection (bufferMinutes DEFAULT_BOOKING_CONFIG * 60 * 1000) twiceBooked"
    by code_simp
  with twiceBooked_reachable twiceBooked_appointments show ?thesis by blast
qed

text \<open>
  Claim C1, amended. In every store state reachable under one booking configuration, no
  two BOOKED appointments of one barber are closer than the buffer: the range
  [startTime, endTime) of the one does not intersect the buffered range
  [startTime - bufferMinutes, endTime + bufferMinutes) of the other. The overlap check of
  \<open>createAppointment\<close> keeps this, and so does every other operation.
\<close>

theorem booked_appointments_apart:
  "reachable cfg s \<Longrightarrow> bookedApart (bufferMinutes cfg * 60 * 1000) s"
proof (induction rule: reachable.induct)
  case (r_init s)
  then show ?case by (simp add: bookedApart_def apartList_def eachPair_def)
next
  case (r_create s inp now newId)
  then show ?case by (blast intro: bookedApart_create)
next
  case (r_cancelRoute s gw i r now)
  then show ?case by (blast intro: bookedApart_cancelRoute)
next
  case (r_cancel s cinp cfg' now)
  then show ?case by (blast intro: bookedApart_cancel)
next
  case (r_markNoShow s i now)
  then show ?case by (blast intro: bookedApart_markNoShow)
next
  case (r_complete s i)
  then show ?case by (blast intro: bookedApart_complete)
next
  case (r_detectAndMark s g now)
  then show ?case by (blast intro: bookedApart_detectAndMark)
next
  case (r_detect s now)
  then show ?case by (blast intro: bookedApart_detect)
next
  case (r_pay s out i user newId)
  then show ?case by (blast intro: bookedApart_pay)
next
  case (r_succeeded s intent)
  then show ?case by (blast intro: bookedApart_succeeded)
next
  case (r_failed s intent)
  then show ?case by (blast intro: bookedApart_failed)
next
  case (r_cleanup s now)
  then show ?case by (blast intro: bookedApart_cleanup)
next
  case (r_reset s c)
  then show ?case by (blast intro: bookedApart_reset)
next
  case (r_other s s')
  then show ?case by (simp only: bookedApart_def)
qed

theorem booked_appointments_apart_witness:
  "reachable DEFAULT_BOOKING_CONFIG twiceBooked \<and>
   bookedApart (bufferMinutes DEFAULT_BOOKING_CONFIG * 60 * 1000) twiceBooked \<and>
   length (appointments twiceBooked) = 2"
  using booked_appointments_apart [OF twiceBooked_reachable] twiceBooked_reachable
    twiceBooked_appointments
  by simp

text \<open>Next to the BOOKED appointment 10:00 to 10:30, a request for 09:21 (ending 09:51,
  inside the buffer) is refused and one for 09:20 is booked.\<close>

lemma booking_within_buffer_rejected:
  "createAppointment onceBooked (request ''cust2'' ''svc1'' (clock 9 21))
     DEFAULT_BOOKING_CONFIG saturdayBefore ''a2''
   = (Failure OVERLAPPING_APPOINTMENT, onceBooked) \<and>
   fst (createAppointment onceBooked (request ''cust2'' ''svc1'' (clock 9 20))
          DEFAULT_BOOKING_CONFIG saturdayBefore ''a2'')
   = Success (halfHour ''a2'' ''cust2'' (clock 9 20) BOOKED)"
  by code_simp

text \<open>The overlap query reads BOOKED appointments only: once a1 is CONFIRMED, its slot
  can be booked again.\<close>

lemma confirmed_slot_booked_again:
  "createAppointment confirmedStore (request ''cust2'' ''svc1'' (clock 10 0))
     DEFAULT_BOOKING_CONFIG saturdayBefore ''a2''
   = (Success (halfHour ''a2'' ''cust2'' (clock 10 0) BOOKED),
      shopStore\<lparr>appointments := [halfHour ''a1'' ''cust1'' (clock 10 0) CONFIRMED,
                                 halfHour ''a2'' ''cust2'' (clock 10 0) BOOKED]\<rparr>)"
  by code_simp

end
